theory Spec2Isabelle
  imports Complex_Main
begin

section \<open>Index space and array data\<close>

text \<open>
  The source is \<^verbatim>\<open>src/diffusion/DiffusionEquation.cpp\<close>: the implicit viscous
  diffusion step of an incompressible flow solver written against the AMReX library.
  The class is glue around AMReX containers and the AMReX multigrid operator, so the
  embedding has two layers: a small model of the AMReX operations the class calls
  (boxes, per-grid arrays, copy, multiply, halo exchange, cell-to-face averaging, the
  cell-flag classification of a box), and the member functions of the class themselves,
  written over an explicit record of the object.

  \<^verbatim>\<open>Real\<close> is modelled by \<^typ>\<open>real\<close>: rounding is not modelled, only which value
  is stored where. A cell index is a triple of integers (\<^verbatim>\<open>AMREX_SPACEDIM\<close> is 3:
  the source loops over \<^verbatim>\<open>i, j, k\<close>).
\<close>

type_synonym cell = "int \<times> int \<times> int"

text \<open>An \<^verbatim>\<open>FArrayBox\<close>: the value at a cell and a component.\<close>

type_synonym fab = "cell \<Rightarrow> nat \<Rightarrow> real"

text \<open>
  A \<^verbatim>\<open>MultiFab\<close>: one \<^verbatim>\<open>FArrayBox\<close> per grid of the level's
  \<^verbatim>\<open>BoxArray\<close>, addressed by the grid's number. Each grid has its own storage for
  its ghost cells, so a ghost cell of one grid and the valid cell of its neighbour at
  the same index are two places.
\<close>

type_synonym multifab = "nat \<Rightarrow> fab"

record box =
  smallEnd :: cell
  bigEnd :: cell

definition inbox :: "box \<Rightarrow> cell \<Rightarrow> bool" where
  "inbox bx c =
     (case (smallEnd bx, bigEnd bx, c) of
        ((il, jl, kl), (ih, jh, kh), (i, j, k)) \<Rightarrow>
          il \<le> i \<and> i \<le> ih \<and> jl \<le> j \<and> j \<le> jh \<and> kl \<le> k \<and> k \<le> kh)"

text \<open>
  The cells of a box in the order of the source's triple loop
  (\<^verbatim>\<open>i\<close> outermost, \<^verbatim>\<open>k\<close> innermost, both ends included).
\<close>

definition box_cells :: "box \<Rightarrow> cell list" where
  "box_cells bx =
     (case (smallEnd bx, bigEnd bx) of
        ((il, jl, kl), (ih, jh, kh)) \<Rightarrow>
          concat (map (\<lambda>i. concat (map (\<lambda>j. map (\<lambda>k. (i, j, k)) [kl..kh]) [jl..jh])) [il..ih]))"

text \<open>\<^verbatim>\<open>amrex::grow(bx, n)\<close>: \<open>n\<close> more cells on every side.\<close>

definition grow :: "box \<Rightarrow> nat \<Rightarrow> box" where
  "grow bx n =
     (case (smallEnd bx, bigEnd bx) of
        ((il, jl, kl), (ih, jh, kh)) \<Rightarrow>
          \<lparr>smallEnd = (il - int n, jl - int n, kl - int n),
           bigEnd = (ih + int n, jh + int n, kh + int n)\<rparr>)"

text \<open>The unit step in direction \<open>dir\<close> (0, 1 or 2).\<close>

definition shift_lo :: "nat \<Rightarrow> cell \<Rightarrow> cell" where
  "shift_lo dir c =
     (case c of (i, j, k) \<Rightarrow>
        if dir = 0 then (i - 1, j, k) else if dir = 1 then (i, j - 1, k) else (i, j, k - 1))"

text \<open>
  \<^verbatim>\<open>BoxArray::surroundingNodes(dir)\<close>: the faces normal to \<open>dir\<close> of the cells
  of a box, one more index at the high end of that direction.
\<close>

definition surroundingNodes :: "nat \<Rightarrow> box \<Rightarrow> box" where
  "surroundingNodes dir bx =
     (case bigEnd bx of (ih, jh, kh) \<Rightarrow>
        bx\<lparr>bigEnd :=
          (if dir = 0 then (ih + 1, jh, kh) else if dir = 1 then (ih, jh + 1, kh)
           else (ih, jh, kh + 1))\<rparr>)"

section \<open>The AMReX operations the class calls\<close>

text \<open>
  \<^verbatim>\<open>MultiFab::Copy(dst, src, srccomp, dstcomp, numcomp, nghost)\<close>: on every grid,
  over the grid's box grown by \<open>nghost\<close>, components
  \<open>dstcomp .. dstcomp + numcomp - 1\<close> of \<open>dst\<close> receive components
  \<open>srccomp ..\<close> of \<open>src\<close>. Everything else of \<open>dst\<close> keeps its value.
\<close>

definition MultiFab_Copy ::
  "box list \<Rightarrow> multifab \<Rightarrow> multifab \<Rightarrow> nat \<Rightarrow> nat \<Rightarrow> nat \<Rightarrow> nat \<Rightarrow> multifab" where
  "MultiFab_Copy ba dst src srccomp dstcomp numcomp ng =
     (\<lambda>i c n.
        if i < length ba \<and> inbox (grow (ba ! i) ng) c \<and> dstcomp \<le> n \<and> n < dstcomp + numcomp
        then src i c (srccomp + (n - dstcomp))
        else dst i c n)"

text \<open>
  \<^verbatim>\<open>MultiFab::Multiply(dst, src, srccomp, dstcomp, numcomp, nghost)\<close>: the same
  region, \<^verbatim>\<open>dst *= src\<close>.
\<close>

definition MultiFab_Multiply ::
  "box list \<Rightarrow> multifab \<Rightarrow> multifab \<Rightarrow> nat \<Rightarrow> nat \<Rightarrow> nat \<Rightarrow> nat \<Rightarrow> multifab" where
  "MultiFab_Multiply ba dst src srccomp dstcomp numcomp ng =
     (\<lambda>i c n.
        if i < length ba \<and> inbox (grow (ba ! i) ng) c \<and> dstcomp \<le> n \<and> n < dstcomp + numcomp
        then dst i c n * src i c (srccomp + (n - dstcomp))
        else dst i c n)"

text \<open>
  \<^verbatim>\<open>FabArray::FillBoundary(periodicity)\<close>, the halo exchange. AMReX derives a copy
  plan from the box array, the ghost width and the periodicity: for a ghost cell of a
  grid, the grid and cell whose valid value it receives (a neighbour's cell, or its
  periodic image), and nothing for a ghost cell outside the domain. The plan is a
  parameter here; the operation writes ghost cells only (inside the grown box, outside
  the grid's own box), reads valid cells only, and leaves every other value alone.
\<close>

type_synonym halo_plan = "nat \<Rightarrow> cell \<Rightarrow> (nat \<times> cell) option"

definition FillBoundary :: "halo_plan \<Rightarrow> box list \<Rightarrow> nat \<Rightarrow> multifab \<Rightarrow> multifab" where
  "FillBoundary plan ba ng mf =
     (\<lambda>i c n.
        if i < length ba \<and> inbox (grow (ba ! i) ng) c \<and> \<not> inbox (ba ! i) c
        then (case plan i c of
                None \<Rightarrow> mf i c n
              | Some (j, c') \<Rightarrow> if j < length ba \<and> inbox (ba ! j) c' then mf j c' n else mf i c n)
        else mf i c n)"

text \<open>
  \<^verbatim>\<open>amrex::average_cellcenter_to_face(fc, cc, geom)\<close>: on every grid and for each
  direction, component 0 of every face of the grid's cells becomes the arithmetic mean
  of the two cells that share the face. The argument is the three face arrays of one
  level, addressed by direction.
\<close>

definition average_cellcenter_to_face ::
  "box list \<Rightarrow> (nat \<Rightarrow> multifab) \<Rightarrow> multifab \<Rightarrow> (nat \<Rightarrow> multifab)" where
  "average_cellcenter_to_face ba fc cc =
     (\<lambda>dir i c n.
        if dir < 3 \<and> i < length ba \<and> inbox (surroundingNodes dir (ba ! i)) c \<and> n = 0
        then (cc i (shift_lo dir c) 0 + cc i c 0) / 2
        else fc dir i c n)"

text \<open>
  \<^verbatim>\<open>BaseFab::setVal(x, bx, N = 0)\<close>: the overload the constructor calls with two
  arguments. It sets the single component \<open>N\<close>, here the default 0, on the box.
\<close>

definition setVal :: "real \<Rightarrow> box \<Rightarrow> nat \<Rightarrow> fab \<Rightarrow> fab" where
  "setVal x bx N f = (\<lambda>c n. if inbox bx c \<and> n = N then x else f c n)"

text \<open>
  The embedded-boundary classification. Each cell is regular (all fluid), covered (all
  solid) or cut by the surface (single- or multi-valued).
  \<^verbatim>\<open>EBCellFlagFab::getType(bx)\<close> classifies a box from its cells: regular when every
  cell is regular, covered when every cell is covered, else multivalued when some cell
  is, else singlevalued.
\<close>

datatype EBCellFlag = Regular | SingleValued | MultiValued | Covered

datatype FabType = covered | regular | singlevalued | multivalued | undefined_type

definition getType :: "(cell \<Rightarrow> EBCellFlag) \<Rightarrow> box \<Rightarrow> FabType" where
  "getType flags bx =
     (if list_all (\<lambda>c. flags c = Regular) (box_cells bx) then regular
      else if list_all (\<lambda>c. flags c = Covered) (box_cells bx) then covered
      else if list_ex (\<lambda>c. flags c = MultiValued) (box_cells bx) then multivalued
      else singlevalued)"

text \<open>
  The C library's \<^verbatim>\<open>atan2\<close> tells the two zeros of IEEE arithmetic apart:
  \<^verbatim>\<open>atan2(+0, -0)\<close> is \<open>\<pi>\<close>, \<^verbatim>\<open>atan2(-0, -0)\<close> is \<open>-\<pi>\<close>, and
  \<^verbatim>\<open>atan2(\<plusminus>0, +0)\<close> is \<open>\<plusminus>0\<close>. An argument of \<open>atan2\<close> therefore carries,
  beside its value, the sign bit a zero has (\<open>True\<close> for \<^verbatim>\<open>-0.0\<close>; it plays no
  role for a value other than zero). Unary minus negates the value and flips the bit,
  so the negation of \<^verbatim>\<open>+0.0\<close> is \<^verbatim>\<open>-0.0\<close>. The angle returned is a real: the
  sign of a zero angle is not kept, its sine is a zero and its cosine 1 either way.
\<close>

type_synonym signed_real = "real \<times> bool"

definition neg_sz :: "signed_real \<Rightarrow> signed_real" where
  "neg_sz x = (- fst x, \<not> snd x)"

definition atan2 :: "signed_real \<Rightarrow> signed_real \<Rightarrow> real" where
  "atan2 y x =
     (if 0 < fst x then arctan (fst y / fst x)
      else if fst x < 0
      then (if 0 < fst y \<or> (fst y = 0 \<and> \<not> snd y) then arctan (fst y / fst x) + pi
            else arctan (fst y / fst x) - pi)
      else if 0 < fst y then pi / 2
      else if fst y < 0 then - (pi / 2)
      else if snd x then (if snd y then - pi else pi)
      else 0)"

section \<open>The collaborators of the class\<close>

text \<open>
  What the class reads of \<^verbatim>\<open>AmrCore\<close>: the level numbers, the grids of each level,
  and, through \<^verbatim>\<open>Geom(lev).periodicity()\<close>, the halo plans of the level's
  cell-centred arrays and of its face arrays in each direction.
\<close>

record AmrCore =
  maxLevel :: nat
  finestLevel :: nat
  boxArray :: "nat \<Rightarrow> box list"
  haloCC :: "nat \<Rightarrow> halo_plan"
  haloFC :: "nat \<Rightarrow> nat \<Rightarrow> halo_plan"

text \<open>
  What the constructor reads of a level's \<^verbatim>\<open>EBFArrayBoxFactory\<close>: the cell flags
  and the boundary normal of each grid. The components of the normal go through a
  unary minus into \<^verbatim>\<open>atan2\<close>, so they are kept with the sign bit of their zero.
\<close>

record EBFArrayBoxFactory =
  cellFlags :: "nat \<Rightarrow> cell \<Rightarrow> EBCellFlag"
  bndryNormal :: "nat \<Rightarrow> cell \<Rightarrow> nat \<Rightarrow> signed_real"

text \<open>
  The multigrid solver object \<^verbatim>\<open>MLMG\<close>, as far as \<^verbatim>\<open>setSolverSettings\<close> and
  \<^verbatim>\<open>solve\<close> configure it.
\<close>

datatype BottomSolver = Default | smoother | bicgstab | cg | bicgcg | cgbicg | hypre | petsc

record MLMG =
  bottom_solver :: BottomSolver
  max_iter :: int
  max_fmg_iter :: int
  cg_maxiter :: int
  mlmg_verbose :: int
  cg_verbose :: int
  final_fill_bc :: bool

text \<open>
  The linear operator \<^verbatim>\<open>matrix\<close> (\<open>alpha a - beta div (b grad)\<close>), as far as the
  class configures it. A coefficient that was never set is \<open>None\<close>.
  \<open>op_eb_dirichlet\<close> is what \<^verbatim>\<open>setEBDirichlet\<close> and
  \<^verbatim>\<open>setEBHomogDirichlet\<close> would set: the surface values (none for the homogeneous
  call) and the coefficient.
\<close>

record LinOp =
  op_max_coarsening_level :: int
  op_max_order :: int
  op_domain_bc :: "int list \<times> int list"
  op_alpha :: "real option"
  op_beta :: "real option"
  op_acoef :: "nat \<Rightarrow> multifab option"
  op_bcoef :: "nat \<Rightarrow> (nat \<Rightarrow> multifab) option"
  op_eb_visc :: "nat \<Rightarrow> multifab option"
  op_level_bc :: "nat \<Rightarrow> multifab option"
  op_eb_dirichlet :: "nat \<Rightarrow> (multifab option \<times> multifab) option"

text \<open>
  The calls the class makes on the operator and on the solver, in the order it makes
  them: a log kept beside the object, which the source does not have and which only
  records.
\<close>

datatype ext_call =
    SetScalars real real
  | SetACoeffs nat
  | SetShearViscosity nat
  | SetEBShearViscosity nat
  | SetLevelBC nat
  | SetEBDirichlet nat
  | SetEBHomogDirichlet nat
  | MLMG_solve


definition is_SetScalars :: "ext_call \<Rightarrow> bool" where
  "is_SetScalars e = (case e of SetScalars x y \<Rightarrow> True | _ \<Rightarrow> False)"

section \<open>The object\<close>

text \<open>
  The members of \<^verbatim>\<open>DiffusionEquation\<close>. The per-level vectors \<open>b\<close>, \<open>phi\<close>,
  \<open>rhs\<close> and \<open>vel_eb\<close> are functions of the level (the constructor sizes them to
  \<open>max_level + 1\<close>); \<open>b\<close> holds three face arrays per level. \<open>out\<close> is what
  \<^verbatim>\<open>amrex::Print()\<close> has written, \<open>calls\<close> the log of operator and solver calls.
\<close>

record DiffusionEquation =
  amrcore :: AmrCore
  ebfactory :: "nat \<Rightarrow> EBFArrayBoxFactory"
  nghost :: nat
  cyl_speed :: real
  verbose :: int
  mg_verbose :: int
  mg_cg_verbose :: int
  mg_max_iter :: int
  mg_cg_maxiter :: int
  mg_max_fmg_iter :: int
  mg_max_coarsening_level :: int
  mg_rtol :: real
  mg_atol :: real
  bottom_solver_type :: string
  bc_lo :: "int list"
  bc_hi :: "int list"
  b :: "nat \<Rightarrow> nat \<Rightarrow> multifab"
  phi :: "nat \<Rightarrow> multifab"
  rhs :: "nat \<Rightarrow> multifab"
  vel_eb :: "nat \<Rightarrow> multifab"
  matrix :: LinOp
  out :: "string list"
  calls :: "ext_call list"

definition Print :: "string \<Rightarrow> DiffusionEquation \<Rightarrow> DiffusionEquation" where
  "Print msg st = st\<lparr>out := out st @ [msg]\<rparr>"

section \<open>setSolverSettings\<close>

text \<open>
  Lines 265 to 287. The two string comparisons select a bottom solver; any other
  string leaves the solver's bottom solver as it is. The six settings after the
  \<^verbatim>\<open>if\<close> are applied on every path.
\<close>

definition setSolverSettings :: "DiffusionEquation \<Rightarrow> MLMG \<Rightarrow> MLMG" where
  "setSolverSettings st solver =
     (let s1 = (if bottom_solver_type st = ''smoother'' then solver\<lparr>bottom_solver := smoother\<rparr>
                else if bottom_solver_type st = ''hypre'' then solver\<lparr>bottom_solver := hypre\<rparr>
                else solver);
          s2 = s1\<lparr>max_iter := mg_max_iter st\<rparr>;
          s3 = s2\<lparr>max_fmg_iter := mg_max_fmg_iter st\<rparr>;
          s4 = s3\<lparr>cg_maxiter := mg_cg_maxiter st\<rparr>;
          s5 = s4\<lparr>mlmg_verbose := mg_verbose st\<rparr>;
          s6 = s5\<lparr>cg_verbose := mg_cg_verbose st\<rparr>
      in s6\<lparr>final_fill_bc := True\<rparr>)"

section \<open>updateInternals\<close>

text \<open>
  Lines 156 to 163: one line printed, then \<^verbatim>\<open>amrex::Abort()\<close>. A member function
  either returns the object or aborts the process; \<open>Aborted\<close> carries the object as it
  was when the process stopped.
\<close>

datatype 'a outcome = Returned 'a | Aborted 'a

definition updateInternals ::
  "AmrCore \<Rightarrow> (nat \<Rightarrow> EBFArrayBoxFactory) \<Rightarrow> DiffusionEquation \<Rightarrow> DiffusionEquation outcome" where
  "updateInternals amrcore_in ebfactory_in st =
     (let st1 = Print ''ERROR: DiffusionEquation::updateInternals() not yet implemented'' st
      in Aborted st1)"

section \<open>The constructor\<close>

text \<open>
  \<^verbatim>\<open>readParameters\<close>, lines 140 to 154. \<^verbatim>\<open>ParmParse::query\<close> overwrites the
  member when the key is present in the input and leaves it alone otherwise.
\<close>

record ParmParse =
  pp_verbose :: "int option"
  pp_mg_verbose :: "int option"
  pp_mg_cg_verbose :: "int option"
  pp_mg_max_iter :: "int option"
  pp_mg_cg_maxiter :: "int option"
  pp_mg_max_fmg_iter :: "int option"
  pp_mg_max_coarsening_level :: "int option"
  pp_mg_rtol :: "real option"
  pp_mg_atol :: "real option"
  pp_bottom_solver_type :: "string option"

definition query :: "'a option \<Rightarrow> 'a \<Rightarrow> 'a" where
  "query v cur = (case v of None \<Rightarrow> cur | Some x \<Rightarrow> x)"

definition readParameters :: "ParmParse \<Rightarrow> DiffusionEquation \<Rightarrow> DiffusionEquation" where
  "readParameters pp st =
     st\<lparr>verbose := query (pp_verbose pp) (verbose st),
        mg_verbose := query (pp_mg_verbose pp) (mg_verbose st),
        mg_cg_verbose := query (pp_mg_cg_verbose pp) (mg_cg_verbose st),
        mg_max_iter := query (pp_mg_max_iter pp) (mg_max_iter st),
        mg_cg_maxiter := query (pp_mg_cg_maxiter pp) (mg_cg_maxiter st),
        mg_max_fmg_iter := query (pp_mg_max_fmg_iter pp) (mg_max_fmg_iter st),
        mg_max_coarsening_level :=
          query (pp_mg_max_coarsening_level pp) (mg_max_coarsening_level st),
        mg_rtol := query (pp_mg_rtol pp) (mg_rtol st),
        mg_atol := query (pp_mg_atol pp) (mg_atol st),
        bottom_solver_type := query (pp_bottom_solver_type pp) (bottom_solver_type st)\<rparr>"

text \<open>
  The body of the innermost loop, lines 113 to 115: the two assignments to components
  0 and 1 of one cell. Component 2 is not assigned.
\<close>

definition fill_cell ::
  "real \<Rightarrow> (cell \<Rightarrow> nat \<Rightarrow> signed_real) \<Rightarrow> cell \<Rightarrow> fab \<Rightarrow> fab" where
  "fill_cell speed nrm_fab c vel_eb_arr =
     (let theta = atan2 (neg_sz (nrm_fab c 1)) (neg_sz (nrm_fab c 0))
      in vel_eb_arr(c := (vel_eb_arr c)(0 := speed * sin theta, 1 := - speed * cos theta)))"

text \<open>
  The body of the loop over tiles, lines 94 to 117. An \<^verbatim>\<open>MFIter\<close> position is a
  grid number and the tile box. The test is on the type of the whole tile; in the
  \<^verbatim>\<open>else\<close> branch the triple loop runs over every cell of the tile.
\<close>

definition fill_tile ::
  "real \<Rightarrow> EBFArrayBoxFactory \<Rightarrow> nat \<times> box \<Rightarrow> multifab \<Rightarrow> multifab" where
  "fill_tile speed ebf mfi mf =
     (case mfi of (g, bx) \<Rightarrow>
        if getType (cellFlags ebf g) bx = covered \<or> getType (cellFlags ebf g) bx = regular
        then mf(g := setVal 0 bx 0 (mf g))
        else mf(g := fold (fill_cell speed (bndryNormal ebf g)) (box_cells bx) (mf g)))"

text \<open>The loop over levels, lines 82 to 119, for one level.\<close>

definition fill_vel_eb_level ::
  "(nat \<Rightarrow> (nat \<times> box) list) \<Rightarrow> nat \<Rightarrow> DiffusionEquation \<Rightarrow> DiffusionEquation" where
  "fill_vel_eb_level tiles lev st =
     st\<lparr>vel_eb := (vel_eb st)
          (lev := fold (fill_tile (cyl_speed st) (ebfactory st lev)) (tiles lev) (vel_eb st lev))\<rparr>"

text \<open>
  The constructor, lines 16 to 134. \<open>st0\<close> is the object before the body runs: the
  configuration members hold their in-class defaults, the operator is default
  constructed, and the four array members stand for the memory the allocations of
  lines 57 to 79 return, which the constructor of \<^verbatim>\<open>MultiFab\<close> does not initialise.
  \<open>tiles\<close> gives the \<^verbatim>\<open>MFIter\<close> positions of each level (the tiles partition the
  valid boxes). \<^verbatim>\<open>set_diff_bc\<close> is declared in \<^verbatim>\<open>diffusion_F.H\<close> and is not part
  of the source at hand: the codes it stores are the parameters \<open>lo\<close> and \<open>hi\<close>.
\<close>

definition DiffusionEquation_new ::
  "ParmParse \<Rightarrow> (nat \<Rightarrow> (nat \<times> box) list) \<Rightarrow> int list \<Rightarrow> int list \<Rightarrow> DiffusionEquation \<Rightarrow>
   AmrCore \<Rightarrow> (nat \<Rightarrow> EBFArrayBoxFactory) \<Rightarrow> nat \<Rightarrow> real \<Rightarrow> DiffusionEquation" where
  "DiffusionEquation_new pp tiles lo hi st0 amrcore_in ebfactory_in nghost_in cyl_speed_in =
     (let st1 = readParameters pp st0;
          st2 = (if verbose st1 > 0 then Print ''Constructing DiffusionEquation class'' st1
                 else st1);
          st3 = st2\<lparr>amrcore := amrcore_in, ebfactory := ebfactory_in, nghost := nghost_in,
                    cyl_speed := cyl_speed_in, bc_lo := lo, bc_hi := hi\<rparr>;
          st4 = fold (fill_vel_eb_level tiles) [0..<Suc (maxLevel amrcore_in)] st3
      in st4\<lparr>matrix := (matrix st4)
               \<lparr>op_max_coarsening_level := mg_max_coarsening_level st4,
                op_max_order := 3,
                op_domain_bc := (bc_lo st4, bc_hi st4)\<rparr>\<rparr>)"

section \<open>solve\<close>

text \<open>The operator's setters: each stores its argument and is logged.\<close>

definition setScalars :: "real \<Rightarrow> real \<Rightarrow> DiffusionEquation \<Rightarrow> DiffusionEquation" where
  "setScalars x y st =
     st\<lparr>matrix := (matrix st)\<lparr>op_alpha := Some x, op_beta := Some y\<rparr>,
        calls := calls st @ [SetScalars x y]\<rparr>"

definition setACoeffs :: "nat \<Rightarrow> multifab \<Rightarrow> DiffusionEquation \<Rightarrow> DiffusionEquation" where
  "setACoeffs lev mf st =
     st\<lparr>matrix := (matrix st)\<lparr>op_acoef := (op_acoef (matrix st))(lev \<mapsto> mf)\<rparr>,
        calls := calls st @ [SetACoeffs lev]\<rparr>"

definition setShearViscosity ::
  "nat \<Rightarrow> (nat \<Rightarrow> multifab) \<Rightarrow> DiffusionEquation \<Rightarrow> DiffusionEquation" where
  "setShearViscosity lev fc st =
     st\<lparr>matrix := (matrix st)\<lparr>op_bcoef := (op_bcoef (matrix st))(lev \<mapsto> fc)\<rparr>,
        calls := calls st @ [SetShearViscosity lev]\<rparr>"

definition setEBShearViscosity :: "nat \<Rightarrow> multifab \<Rightarrow> DiffusionEquation \<Rightarrow> DiffusionEquation" where
  "setEBShearViscosity lev mf st =
     st\<lparr>matrix := (matrix st)\<lparr>op_eb_visc := (op_eb_visc (matrix st))(lev \<mapsto> mf)\<rparr>,
        calls := calls st @ [SetEBShearViscosity lev]\<rparr>"

definition setLevelBC :: "nat \<Rightarrow> multifab \<Rightarrow> DiffusionEquation \<Rightarrow> DiffusionEquation" where
  "setLevelBC lev mf st =
     st\<lparr>matrix := (matrix st)\<lparr>op_level_bc := (op_level_bc (matrix st))(lev \<mapsto> mf)\<rparr>,
        calls := calls st @ [SetLevelBC lev]\<rparr>"

text \<open>
  The halo exchange of one face array of a level, line 195. The face array lives on
  the box array of line 65 to 66 and has \<open>nghost\<close> ghost faces.
\<close>

definition fill_b_dir :: "nat \<Rightarrow> nat \<Rightarrow> DiffusionEquation \<Rightarrow> DiffusionEquation" where
  "fill_b_dir lev dir st =
     st\<lparr>b := (b st)(lev := (b st lev)
          (dir := FillBoundary (haloFC (amrcore st) lev dir)
                    (map (surroundingNodes dir) (boxArray (amrcore st) lev)) (nghost st)
                    (b st lev dir)))\<rparr>"

text \<open>The body of the first loop over levels, lines 192 to 200.\<close>

definition refresh_level ::
  "(nat \<Rightarrow> multifab) \<Rightarrow> (nat \<Rightarrow> multifab) \<Rightarrow> nat \<Rightarrow> DiffusionEquation \<Rightarrow> DiffusionEquation" where
  "refresh_level ro_in eta_in lev st =
     (let st1 = st\<lparr>b := (b st)
                   (lev := average_cellcenter_to_face (boxArray (amrcore st) lev) (b st lev)
                             (eta_in lev))\<rparr>;
          st2 = fold (fill_b_dir lev) [0..<3] st1;
          st3 = setACoeffs lev (ro_in lev) st2;
          st4 = setShearViscosity lev (b st3 lev) st3
      in setEBShearViscosity lev (eta_in lev) st4)"

text \<open>Lines 187 to 201: the scalars, then the loop over the levels up to the finest.\<close>

definition refresh_coeffs ::
  "(nat \<Rightarrow> multifab) \<Rightarrow> (nat \<Rightarrow> multifab) \<Rightarrow> real \<Rightarrow> DiffusionEquation \<Rightarrow> DiffusionEquation" where
  "refresh_coeffs ro_in eta_in dt st =
     (let st1 = setScalars 1 dt st
      in fold (refresh_level ro_in eta_in) [0..<Suc (finestLevel (amrcore st1))] st1)"

text \<open>
  The three face arrays of a level as lines 193 to 195 leave them: averaged from the
  viscosity, then the halo exchange in each of the three directions. The lemmas below
  show that this is what \<open>refresh_level\<close> stores.
\<close>

definition b_refreshed ::
  "AmrCore \<Rightarrow> nat \<Rightarrow> nat \<Rightarrow> (nat \<Rightarrow> multifab) \<Rightarrow> multifab \<Rightarrow> (nat \<Rightarrow> multifab)" where
  "b_refreshed ac ng lev fc eta =
     (\<lambda>dir. if dir < 3
            then FillBoundary (haloFC ac lev dir) (map (surroundingNodes dir) (boxArray ac lev)) ng
                   (average_cellcenter_to_face (boxArray ac lev) fc eta dir)
            else average_cellcenter_to_face (boxArray ac lev) fc eta dir)"

text \<open>
  The ghost widths the constructor gives the two buffers (lines 70 to 75):
  \<^verbatim>\<open>rhs[lev]->nGrow()\<close> is 0, and \<open>phi\<close> has one ghost cell.
\<close>

definition rhs_nGrow :: nat where
  "rhs_nGrow = 0"

definition phi_nGrow :: nat where
  "phi_nGrow = 1"

text \<open>One pass of the loop of lines 218 to 219.\<close>

definition multiply_rhs ::
  "(nat \<Rightarrow> multifab) \<Rightarrow> nat \<Rightarrow> nat \<Rightarrow> DiffusionEquation \<Rightarrow> DiffusionEquation" where
  "multiply_rhs ro_in lev i st =
     st\<lparr>rhs := (rhs st)
          (lev := MultiFab_Multiply (boxArray (amrcore st) lev) (rhs st lev) (ro_in lev)
                    0 i 1 rhs_nGrow)\<rparr>"

text \<open>
  The body of the second loop over levels, lines 210 to 241. The block of lines 226
  to 240 is compiled out (\<^verbatim>\<open>#if 0\<close>) and has no counterpart here.
\<close>

definition rhs_level ::
  "(nat \<Rightarrow> multifab) \<Rightarrow> (nat \<Rightarrow> multifab) \<Rightarrow> nat \<Rightarrow> DiffusionEquation \<Rightarrow> DiffusionEquation" where
  "rhs_level vel_in ro_in lev st =
     (let ba = boxArray (amrcore st) lev;
          st1 = st\<lparr>rhs := (rhs st)(lev := MultiFab_Copy ba (rhs st lev) (vel_in lev) 0 0 3 0)\<rparr>;
          st2 = fold (multiply_rhs ro_in lev) [0..<3] st1;
          st3 = st2\<lparr>phi := (phi st2)(lev := MultiFab_Copy ba (phi st2 lev) (vel_in lev) 0 0 3 1)\<rparr>;
          st4 = st3\<lparr>phi := (phi st3)
                     (lev := FillBoundary (haloCC (amrcore st3) lev) ba phi_nGrow (phi st3 lev))\<rparr>
      in setLevelBC lev (phi st4 lev) st4)"

text \<open>
  The two buffers of a level as the body of the second loop leaves them, written as
  one expression each: the right-hand side after the copy and the three
  multiplications, and the solution buffer after the copy and the halo exchange. The
  lemmas below show that this is what \<open>rhs_level\<close> stores.
\<close>

definition rhs_built :: "box list \<Rightarrow> multifab \<Rightarrow> multifab \<Rightarrow> multifab \<Rightarrow> multifab" where
  "rhs_built ba r0 vel ro =
     MultiFab_Multiply ba
       (MultiFab_Multiply ba
          (MultiFab_Multiply ba (MultiFab_Copy ba r0 vel 0 0 3 0) ro 0 0 1 rhs_nGrow)
          ro 0 1 1 rhs_nGrow)
       ro 0 2 1 rhs_nGrow"

definition phi_built :: "halo_plan \<Rightarrow> box list \<Rightarrow> multifab \<Rightarrow> multifab \<Rightarrow> multifab" where
  "phi_built plan ba p0 vel = FillBoundary plan ba phi_nGrow (MultiFab_Copy ba p0 vel 0 0 3 1)"

text \<open>The operator calls of lines 187 to 241 in the order they are made.\<close>

definition setup_calls :: "nat \<Rightarrow> real \<Rightarrow> ext_call list" where
  "setup_calls finest dt =
     [SetScalars 1 dt]
     @ concat (map (\<lambda>l. [SetACoeffs l, SetShearViscosity l, SetEBShearViscosity l])
                [0..<Suc finest])
     @ map SetLevelBC [0..<Suc finest]"

text \<open>Lines 187 to 241: everything \<^verbatim>\<open>solve\<close> does before it builds the solver.\<close>

definition solve_setup ::
  "(nat \<Rightarrow> multifab) \<Rightarrow> (nat \<Rightarrow> multifab) \<Rightarrow> (nat \<Rightarrow> multifab) \<Rightarrow> real \<Rightarrow>
   DiffusionEquation \<Rightarrow> DiffusionEquation" where
  "solve_setup vel_in ro_in eta_in dt st =
     (let st1 = refresh_coeffs ro_in eta_in dt st;
          st2 = (if verbose st1 > 0 then Print ''Diffusing velocity components all together...'' st1
                 else st1)
      in fold (rhs_level vel_in ro_in) [0..<Suc (finestLevel (amrcore st2))] st2)"

text \<open>
  The body of the last loop over levels, lines 253 to 254, on the object and the
  caller's velocity.
\<close>

definition copy_back_level ::
  "nat \<Rightarrow> DiffusionEquation \<times> (nat \<Rightarrow> multifab) \<Rightarrow> DiffusionEquation \<times> (nat \<Rightarrow> multifab)" where
  "copy_back_level lev sv =
     (case sv of (st, vel) \<Rightarrow>
        (let ba = boxArray (amrcore st) lev;
             st1 = st\<lparr>phi := (phi st)
                        (lev := FillBoundary (haloCC (amrcore st) lev) ba phi_nGrow (phi st lev))\<rparr>
         in (st1, vel(lev := MultiFab_Copy ba (vel lev) (phi st1 lev) 0 0 3 1))))"

text \<open>Lines 251 to 258: what \<^verbatim>\<open>solve\<close> does once the solver has returned.\<close>

definition solve_finish ::
  "(nat \<Rightarrow> multifab) \<Rightarrow> DiffusionEquation \<Rightarrow> DiffusionEquation \<times> (nat \<Rightarrow> multifab)" where
  "solve_finish vel_in st =
     (case fold copy_back_level [0..<Suc (finestLevel (amrcore st))] (st, vel_in) of
        (st1, vel) \<Rightarrow> ((if verbose st1 > 0 then Print '' done!'' st1 else st1), vel))"

text \<open>
  The external multigrid solve, \<^verbatim>\<open>MLMG::solve\<close>: from the operator, the solver's
  settings, the solution buffers (initial guess), the right-hand sides and the two
  tolerances, the new content of the solution buffers, or \<open>None\<close> when the library
  aborts the process (no convergence within the iteration cap).
\<close>

type_synonym mlmg_solve =
  "LinOp \<Rightarrow> MLMG \<Rightarrow> (nat \<Rightarrow> multifab) \<Rightarrow> (nat \<Rightarrow> multifab) \<Rightarrow> real \<Rightarrow> real \<Rightarrow>
   (nat \<Rightarrow> multifab) option"

text \<open>
  \<^verbatim>\<open>solve\<close>, lines 168 to 259. \<open>mlmg_new\<close> is the solver as \<^verbatim>\<open>MLMG solver(matrix)\<close>
  builds it, with the library's defaults. The result carries the object and the
  caller's velocity vector.
\<close>

definition solve ::
  "MLMG \<Rightarrow> mlmg_solve \<Rightarrow> (nat \<Rightarrow> multifab) \<Rightarrow> (nat \<Rightarrow> multifab) \<Rightarrow> (nat \<Rightarrow> multifab) \<Rightarrow> real \<Rightarrow>
   DiffusionEquation \<Rightarrow> (DiffusionEquation \<times> (nat \<Rightarrow> multifab)) outcome" where
  "solve mlmg_new ext_solve vel_in ro_in eta_in dt st =
     (let st1 = solve_setup vel_in ro_in eta_in dt st;
          solver = (setSolverSettings st1 mlmg_new)\<lparr>final_fill_bc := True\<rparr>;
          st2 = st1\<lparr>calls := calls st1 @ [MLMG_solve]\<rparr>
      in case ext_solve (matrix st2) solver (phi st2) (rhs st2) (mg_rtol st2) (mg_atol st2) of
           None \<Rightarrow> Aborted (st2, vel_in)
         | Some phi' \<Rightarrow> Returned (solve_finish vel_in (st2\<lparr>phi := phi'\<rparr>)))"

text \<open>The object and velocity an outcome carries.\<close>

definition carried :: "'a outcome \<Rightarrow> 'a" where
  "carried r = (case r of Returned x \<Rightarrow> x | Aborted x \<Rightarrow> x)"



section \<open>A small configuration\<close>

text \<open>
  A concrete hierarchy on which the theorems below are instantiated. Two levels, of
  which only level 0 is active (\<open>finestLevel = 0\<close>, \<open>maxLevel = 1\<close>). Each level
  has two grids of two cells along x, side by side; the ghost cell of each grid that
  lies in the other grid is filled from it, every other ghost cell lies outside the
  domain. Cell \<open>(0,0,0)\<close> of grid 0 is cut by the surface, with normal
  \<open>(-1, 0, 0)\<close>; every other cell is regular, with normal 0 (all zeros are
  \<^verbatim>\<open>+0.0\<close>). Each grid is one tile.
  The rotation speed is 1.
\<close>

definition ex_boxA :: box where
  "ex_boxA = \<lparr>smallEnd = (0, 0, 0), bigEnd = (1, 0, 0)\<rparr>"

definition ex_boxB :: box where
  "ex_boxB = \<lparr>smallEnd = (2, 0, 0), bigEnd = (3, 0, 0)\<rparr>"

definition ex_amrcore :: AmrCore where
  "ex_amrcore =
     \<lparr>maxLevel = 1, finestLevel = 0,
      boxArray = (\<lambda>lev. [ex_boxA, ex_boxB]),
      haloCC = (\<lambda>lev g c. if g = 0 \<and> c = (2, 0, 0) then Some (1, (2, 0, 0))
                          else if g = 1 \<and> c = (1, 0, 0) then Some (0, (1, 0, 0))
                          else None),
      haloFC = (\<lambda>lev dir g c. None)\<rparr>"

definition ex_ebfactory :: "nat \<Rightarrow> EBFArrayBoxFactory" where
  "ex_ebfactory lev =
     \<lparr>cellFlags = (\<lambda>g c. if g = 0 \<and> c = (0, 0, 0) then SingleValued else Regular),
      bndryNormal = (\<lambda>g c n. if g = 0 \<and> c = (0, 0, 0) \<and> n = 0 then (- 1, True)
                              else (0, False))\<rparr>"

definition ex_tiles :: "nat \<Rightarrow> (nat \<times> box) list" where
  "ex_tiles lev = [(0, ex_boxA), (1, ex_boxB)]"

definition ex_pp :: ParmParse where
  "ex_pp =
     \<lparr>pp_verbose = None, pp_mg_verbose = None, pp_mg_cg_verbose = None,
      pp_mg_max_iter = None, pp_mg_cg_maxiter = None, pp_mg_max_fmg_iter = None,
      pp_mg_max_coarsening_level = None, pp_mg_rtol = None, pp_mg_atol = None,
      pp_bottom_solver_type = None\<rparr>"

definition ex_linop :: LinOp where
  "ex_linop =
     \<lparr>op_max_coarsening_level = 0, op_max_order = 0, op_domain_bc = ([], []),
      op_alpha = None, op_beta = None,
      op_acoef = (\<lambda>lev. None), op_bcoef = (\<lambda>lev. None), op_eb_visc = (\<lambda>lev. None),
      op_level_bc = (\<lambda>lev. None), op_eb_dirichlet = (\<lambda>lev. None)\<rparr>"

text \<open>
  The object before the constructor body runs, every word of the arrays' memory
  holding \<open>m\<close>.
\<close>

definition ex_object :: "real \<Rightarrow> DiffusionEquation" where
  "ex_object m =
     \<lparr>amrcore = ex_amrcore, ebfactory = ex_ebfactory, nghost = 0, cyl_speed = 0,
      verbose = 0, mg_verbose = 0, mg_cg_verbose = 0,
      mg_max_iter = 100, mg_cg_maxiter = 100, mg_max_fmg_iter = 0,
      mg_max_coarsening_level = 100, mg_rtol = 0, mg_atol = 0,
      bottom_solver_type = ''bicgstab'', bc_lo = [], bc_hi = [],
      b = (\<lambda>lev dir g c n. m), phi = (\<lambda>lev g c n. m), rhs = (\<lambda>lev g c n. m),
      vel_eb = (\<lambda>lev g c n. m),
      matrix = ex_linop, out = [], calls = []\<rparr>"

definition ex_diffeq :: "real \<Rightarrow> DiffusionEquation" where
  "ex_diffeq m =
     DiffusionEquation_new ex_pp ex_tiles [0, 0, 0] [0, 0, 0] (ex_object m)
       ex_amrcore ex_ebfactory 1 1"

text \<open>
  The caller's fields: velocity 2, density 3 and viscosity 4 everywhere, on both
  levels. The stand-in for the multigrid solve returns, on grid \<open>g\<close>, the constant
  \<open>10 + g\<close>. \<open>ex_mlmg\<close> is a freshly built solver.
\<close>

definition ex_vel :: "nat \<Rightarrow> multifab" where
  "ex_vel = (\<lambda>lev g c n. 2)"

definition ex_ro :: "nat \<Rightarrow> multifab" where
  "ex_ro = (\<lambda>lev g c n. 3)"

definition ex_eta :: "nat \<Rightarrow> multifab" where
  "ex_eta = (\<lambda>lev g c n. 4)"

definition ex_phi_sol :: "nat \<Rightarrow> multifab" where
  "ex_phi_sol = (\<lambda>lev g c n. 10 + real g)"

definition ex_solve :: mlmg_solve where
  "ex_solve = (\<lambda>A s p r rtol atol. Some ex_phi_sol)"

definition ex_mlmg :: MLMG where
  "ex_mlmg =
     \<lparr>bottom_solver = bicgstab, max_iter = 200, max_fmg_iter = 0, cg_maxiter = 200,
      mlmg_verbose = 0, cg_verbose = 0, final_fill_bc = False\<rparr>"

section \<open>Auxiliary facts\<close>

subsection \<open>Boxes and the constructor's loops\<close>

lemma set_box_cells: "c \<in> set (box_cells bx) \<longleftrightarrow> inbox bx c"
  by (cases bx; cases c) (force simp: box_cells_def inbox_def image_iff split: prod.splits)

lemma fill_cell_other: "c' \<noteq> c \<Longrightarrow> fill_cell sp nrm c f c' = f c'"
  by (simp add: fill_cell_def Let_def)

lemma fill_cell_same:
  "fill_cell sp nrm c f c n =
     (if n = 0 then sp * sin (atan2 (neg_sz (nrm c 1)) (neg_sz (nrm c 0)))
      else if n = 1 then - sp * cos (atan2 (neg_sz (nrm c 1)) (neg_sz (nrm c 0)))
      else f c n)"
  by (simp add: fill_cell_def Let_def)

lemma fold_fill_cell:
  "fold (fill_cell sp nrm) cs f c n =
     (if c \<in> set cs \<and> n = 0 then sp * sin (atan2 (neg_sz (nrm c 1)) (neg_sz (nrm c 0)))
      else if c \<in> set cs \<and> n = 1 then - sp * cos (atan2 (neg_sz (nrm c 1)) (neg_sz (nrm c 0)))
      else f c n)"
proof (induction cs arbitrary: f rule: rev_induct)
  case Nil
  then show ?case by simp
next
  case (snoc x xs)
  show ?case
  proof (cases "c = x")
    case True
    then show ?thesis using snoc.IH[of f] by (simp add: fill_cell_same)
  next
    case False
    then show ?thesis by (simp add: fill_cell_other snoc.IH)
  qed
qed

lemma fill_tile_other_grid: "g' \<noteq> fst mfi \<Longrightarrow> fill_tile sp ebf mfi mf g' = mf g'"
  by (cases mfi) (simp add: fill_tile_def)

lemma fill_tile_outside: "\<not> inbox (snd mfi) c \<Longrightarrow> fill_tile sp ebf mfi mf g c n = mf g c n"
  by (cases mfi) (simp add: fill_tile_def setVal_def fold_fill_cell set_box_cells)

lemma fill_tile_uniform:
  assumes "getType (cellFlags ebf g) bx = covered \<or> getType (cellFlags ebf g) bx = regular"
    and "inbox bx c"
  shows "fill_tile sp ebf (g, bx) mf g c n = (if n = 0 then 0 else mf g c n)"
  using assms by (auto simp: fill_tile_def setVal_def)

lemma fill_tile_cut:
  assumes "\<not> (getType (cellFlags ebf g) bx = covered \<or> getType (cellFlags ebf g) bx = regular)"
    and "inbox bx c"
  shows "fill_tile sp ebf (g, bx) mf g c n =
     (if n = 0 then sp * sin (atan2 (neg_sz (bndryNormal ebf g c 1)) (neg_sz (bndryNormal ebf g c 0)))
      else if n = 1 then - sp * cos (atan2 (neg_sz (bndryNormal ebf g c 1)) (neg_sz (bndryNormal ebf g c 0)))
      else mf g c n)"
  using assms by (simp add: fill_tile_def fold_fill_cell set_box_cells)

lemma fill_tile_high_comp: "2 \<le> n \<Longrightarrow> fill_tile sp ebf mfi mf g c n = mf g c n"
  by (cases mfi) (simp add: fill_tile_def setVal_def fold_fill_cell)

lemma fold_fill_tile_high_comp:
  "2 \<le> n \<Longrightarrow> fold (fill_tile sp ebf) ts mf g c n = mf g c n"
  by (induction ts arbitrary: mf) (simp_all add: fill_tile_high_comp)

lemma fold_fill_tile_uniform:
  assumes "\<exists>t\<in>set ts. fst t = g \<and> inbox (snd t) c"
    and "\<forall>t\<in>set ts. fst t = g \<and> inbox (snd t) c \<longrightarrow>
           getType (cellFlags ebf g) (snd t) = covered \<or> getType (cellFlags ebf g) (snd t) = regular"
  shows "fold (fill_tile sp ebf) ts mf g c 0 = 0"
  using assms
proof (induction ts rule: rev_induct)
  case Nil
  then show ?case by simp
next
  case (snoc t ts)
  obtain g' bx where t: "t = (g', bx)" by (cases t)
  show ?case
  proof (cases "g' = g \<and> inbox bx c")
    case True
    with snoc.prems(2) t show ?thesis
      using fill_tile_uniform[of ebf g bx c sp "fold (fill_tile sp ebf) ts mf" 0] by simp
  next
    case False
    then have "fill_tile sp ebf t (fold (fill_tile sp ebf) ts mf) g c 0
               = fold (fill_tile sp ebf) ts mf g c 0"
      using t fill_tile_other_grid[of g t sp ebf] fill_tile_outside[of t c sp ebf _ g 0] by auto
    moreover have "\<exists>t\<in>set ts. fst t = g \<and> inbox (snd t) c"
      using snoc.prems(1) False t by auto
    ultimately show ?thesis using snoc.IH snoc.prems(2) by simp
  qed
qed

lemma fold_fill_tile_cut:
  assumes "\<exists>t\<in>set ts. fst t = g \<and> inbox (snd t) c"
    and "\<forall>t\<in>set ts. fst t = g \<and> inbox (snd t) c \<longrightarrow>
           \<not> (getType (cellFlags ebf g) (snd t) = covered \<or> getType (cellFlags ebf g) (snd t) = regular)"
  shows "fold (fill_tile sp ebf) ts mf g c 0
           = sp * sin (atan2 (neg_sz (bndryNormal ebf g c 1)) (neg_sz (bndryNormal ebf g c 0)))
       \<and> fold (fill_tile sp ebf) ts mf g c 1
           = - sp * cos (atan2 (neg_sz (bndryNormal ebf g c 1)) (neg_sz (bndryNormal ebf g c 0)))"
  using assms
proof (induction ts rule: rev_induct)
  case Nil
  then show ?case by simp
next
  case (snoc t ts)
  obtain g' bx where t: "t = (g', bx)" by (cases t)
  show ?case
  proof (cases "g' = g \<and> inbox bx c")
    case True
    with snoc.prems(2) t show ?thesis
      using fill_tile_cut[of ebf g bx c sp "fold (fill_tile sp ebf) ts mf"] by simp
  next
    case False
    then have "\<And>n. fill_tile sp ebf t (fold (fill_tile sp ebf) ts mf) g c n
               = fold (fill_tile sp ebf) ts mf g c n"
      using t fill_tile_other_grid[of g t sp ebf] fill_tile_outside[of t c sp ebf _ g] by auto
    moreover have "\<exists>t\<in>set ts. fst t = g \<and> inbox (snd t) c"
      using snoc.prems(1) False t by auto
    ultimately show ?thesis using snoc.IH snoc.prems(2) by simp
  qed
qed

lemma fold_fill_vel_eb_level_closed:
  "distinct levs \<Longrightarrow>
   fold (fill_vel_eb_level tiles) levs st
     = st\<lparr>vel_eb := (\<lambda>l. if l \<in> set levs
            then fold (fill_tile (cyl_speed st) (ebfactory st l)) (tiles l) (vel_eb st l)
            else vel_eb st l)\<rparr>"
proof (induction levs rule: rev_induct)
  case Nil
  show ?case by simp
next
  case (snoc x xs)
  let ?V = "\<lambda>l. if l \<in> set xs
            then fold (fill_tile (cyl_speed st) (ebfactory st l)) (tiles l) (vel_eb st l)
            else vel_eb st l"
  have x: "x \<notin> set xs" using snoc.prems by simp
  have "fold (fill_vel_eb_level tiles) (xs @ [x]) st
        = fill_vel_eb_level tiles x (fold (fill_vel_eb_level tiles) xs st)"
    by simp
  also have "\<dots> = fill_vel_eb_level tiles x (st\<lparr>vel_eb := ?V\<rparr>)"
    using snoc by simp
  also have "\<dots> = st\<lparr>vel_eb := ?V(x := fold (fill_tile (cyl_speed st) (ebfactory st x)) (tiles x) (vel_eb st x))\<rparr>"
    using x by (simp add: fill_vel_eb_level_def)
  also have "?V(x := fold (fill_tile (cyl_speed st) (ebfactory st x)) (tiles x) (vel_eb st x))
      = (\<lambda>l. if l \<in> set (xs @ [x])
            then fold (fill_tile (cyl_speed st) (ebfactory st l)) (tiles l) (vel_eb st l)
            else vel_eb st l)"
    by (rule ext) simp
  finally show ?case .
qed

lemma DiffusionEquation_new_closed:
  "DiffusionEquation_new pp tiles lo hi st0 ac ebf ng sp =
     (let st2 = (if verbose (readParameters pp st0) > 0
                 then Print ''Constructing DiffusionEquation class'' (readParameters pp st0)
                 else readParameters pp st0)
      in st2\<lparr>amrcore := ac, ebfactory := ebf, nghost := ng, cyl_speed := sp,
             bc_lo := lo, bc_hi := hi,
             vel_eb := (\<lambda>l. if l \<in> set [0..<Suc (maxLevel ac)]
                            then fold (fill_tile sp (ebf l)) (tiles l) (vel_eb st2 l)
                            else vel_eb st2 l),
             matrix := (matrix st2)
               \<lparr>op_max_coarsening_level := mg_max_coarsening_level st2,
                op_max_order := 3,
                op_domain_bc := (lo, hi)\<rparr>\<rparr>)"
proof -
  have d: "distinct [0..<Suc (maxLevel ac)]" by simp
  show ?thesis
    unfolding DiffusionEquation_new_def Let_def fold_fill_vel_eb_level_closed[OF d]
    by (simp del: upt_Suc set_upt cong: if_cong)
qed

lemma vel_eb_new:
  "vel_eb (DiffusionEquation_new pp tiles lo hi st0 ac ebf ng sp) lev =
     (if lev \<le> maxLevel ac
      then fold (fill_tile sp (ebf lev)) (tiles lev) (vel_eb st0 lev)
      else vel_eb st0 lev)"
  by (simp add: DiffusionEquation_new_closed Let_def Print_def readParameters_def less_Suc_eq_le
      del: upt_Suc)

subsection \<open>The coefficient refresh in closed form\<close>

lemma upt_0_3: "[0..<3] = [0, 1, 2]"
  by (simp add: upt_rec)

lemma fun_upd_below:
  "(\<lambda>l. if l < n then f l else g l)(n := f n) = (\<lambda>l. if l < Suc n then f l else g l)"
  by (rule ext) (simp add: less_Suc_eq)

lemma b_after_fill:
  "b (fold (fill_b_dir lev) [0..<3]
        (st\<lparr>b := (b st)(lev := average_cellcenter_to_face (boxArray (amrcore st) lev) (b st lev) e)\<rparr>)) =
     (b st)(lev := b_refreshed (amrcore st) (nghost st) lev (b st lev) e)"
  apply (simp add: upt_0_3 fill_b_dir_def)
  apply (rule arg_cong[where f="fun_upd (b st) lev"])
  apply (rule ext)
  apply (auto simp: b_refreshed_def numeral_3_eq_3 numeral_2_eq_2 less_Suc_eq)
  done

lemma refresh_level_closed:
  "refresh_level ro_in eta_in lev st =
     st\<lparr>b := (b st)(lev := b_refreshed (amrcore st) (nghost st) lev (b st lev) (eta_in lev)),
        matrix := (matrix st)
          \<lparr>op_acoef := (op_acoef (matrix st))(lev \<mapsto> ro_in lev),
           op_bcoef := (op_bcoef (matrix st))
              (lev \<mapsto> b_refreshed (amrcore st) (nghost st) lev (b st lev) (eta_in lev)),
           op_eb_visc := (op_eb_visc (matrix st))(lev \<mapsto> eta_in lev)\<rparr>,
        calls := calls st @ [SetACoeffs lev, SetShearViscosity lev, SetEBShearViscosity lev]\<rparr>"
proof -
  let ?st1 = "st\<lparr>b := (b st)(lev := average_cellcenter_to_face (boxArray (amrcore st) lev) (b st lev) (eta_in lev))\<rparr>"
  let ?st2 = "fold (fill_b_dir lev) [0..<3] ?st1"
  have frame: "?st2 = st\<lparr>b := b ?st2\<rparr>"
    by (simp add: upt_0_3 fill_b_dir_def)
  have bb: "b ?st2 = (b st)(lev := b_refreshed (amrcore st) (nghost st) lev (b st lev) (eta_in lev))"
    by (rule b_after_fill)
  have "refresh_level ro_in eta_in lev st =
        setEBShearViscosity lev (eta_in lev)
          (setShearViscosity lev (b ?st2 lev) (setACoeffs lev (ro_in lev) ?st2))"
    by (simp add: refresh_level_def Let_def setACoeffs_def)
  also have "\<dots> = setEBShearViscosity lev (eta_in lev)
          (setShearViscosity lev (b ?st2 lev) (setACoeffs lev (ro_in lev) (st\<lparr>b := b ?st2\<rparr>)))"
    using frame by simp
  finally show ?thesis
    by (simp add: bb setEBShearViscosity_def setShearViscosity_def setACoeffs_def)
qed

lemma fun_upd_below_Some:
  "(\<lambda>l. if l < n then Some (f l) else g l)(n \<mapsto> f n) = (\<lambda>l. if l < Suc n then Some (f l) else g l)"
  by (rule ext) (simp add: less_Suc_eq)

lemma fold_refresh_level:
  "fold (refresh_level ro_in eta_in) [0..<n] st =
     st\<lparr>b := (\<lambda>l. if l < n then b_refreshed (amrcore st) (nghost st) l (b st l) (eta_in l)
                  else b st l),
        matrix := (matrix st)
          \<lparr>op_acoef := (\<lambda>l. if l < n then Some (ro_in l) else op_acoef (matrix st) l),
           op_bcoef := (\<lambda>l. if l < n
                            then Some (b_refreshed (amrcore st) (nghost st) l (b st l) (eta_in l))
                            else op_bcoef (matrix st) l),
           op_eb_visc := (\<lambda>l. if l < n then Some (eta_in l) else op_eb_visc (matrix st) l)\<rparr>,
        calls := calls st @
          concat (map (\<lambda>l. [SetACoeffs l, SetShearViscosity l, SetEBShearViscosity l]) [0..<n])\<rparr>"
proof (induction n)
  case 0
  show ?case by simp
next
  case (Suc n)
  have "fold (refresh_level ro_in eta_in) [0..<Suc n] st =
        refresh_level ro_in eta_in n (fold (refresh_level ro_in eta_in) [0..<n] st)"
    by simp
  also have "\<dots> = refresh_level ro_in eta_in n (st\<lparr>b := (\<lambda>l. if l < n then b_refreshed (amrcore st) (nghost st) l (b st l) (eta_in l)
                  else b st l),
        matrix := (matrix st)
          \<lparr>op_acoef := (\<lambda>l. if l < n then Some (ro_in l) else op_acoef (matrix st) l),
           op_bcoef := (\<lambda>l. if l < n
                            then Some (b_refreshed (amrcore st) (nghost st) l (b st l) (eta_in l))
                            else op_bcoef (matrix st) l),
           op_eb_visc := (\<lambda>l. if l < n then Some (eta_in l) else op_eb_visc (matrix st) l)\<rparr>,
        calls := calls st @
          concat (map (\<lambda>l. [SetACoeffs l, SetShearViscosity l, SetEBShearViscosity l]) [0..<n])\<rparr>)"
    by (simp only: Suc)
  also have "\<dots> = st\<lparr>b := (\<lambda>l. if l < Suc n then b_refreshed (amrcore st) (nghost st) l (b st l) (eta_in l)
                  else b st l),
        matrix := (matrix st)
          \<lparr>op_acoef := (\<lambda>l. if l < Suc n then Some (ro_in l) else op_acoef (matrix st) l),
           op_bcoef := (\<lambda>l. if l < Suc n
                            then Some (b_refreshed (amrcore st) (nghost st) l (b st l) (eta_in l))
                            else op_bcoef (matrix st) l),
           op_eb_visc := (\<lambda>l. if l < Suc n then Some (eta_in l) else op_eb_visc (matrix st) l)\<rparr>,
        calls := calls st @
          concat (map (\<lambda>l. [SetACoeffs l, SetShearViscosity l, SetEBShearViscosity l]) [0..<Suc n])\<rparr>"
    unfolding refresh_level_closed
    by (simp add: fun_upd_below fun_upd_below_Some
        fun_upd_below[where f="\<lambda>l. b_refreshed (amrcore st) (nghost st) l (b st l) (eta_in l)"]
        fun_upd_below_Some[where f="\<lambda>l. b_refreshed (amrcore st) (nghost st) l (b st l) (eta_in l)"])
  finally show ?case .
qed

lemma refresh_coeffs_closed:
  "refresh_coeffs ro_in eta_in dt st =
     st\<lparr>b := (\<lambda>l. if l < Suc (finestLevel (amrcore st))
                  then b_refreshed (amrcore st) (nghost st) l (b st l) (eta_in l)
                  else b st l),
        matrix := (matrix st)
          \<lparr>op_alpha := Some 1, op_beta := Some dt,
           op_acoef := (\<lambda>l. if l < Suc (finestLevel (amrcore st)) then Some (ro_in l)
                            else op_acoef (matrix st) l),
           op_bcoef := (\<lambda>l. if l < Suc (finestLevel (amrcore st))
                            then Some (b_refreshed (amrcore st) (nghost st) l (b st l) (eta_in l))
                            else op_bcoef (matrix st) l),
           op_eb_visc := (\<lambda>l. if l < Suc (finestLevel (amrcore st)) then Some (eta_in l)
                              else op_eb_visc (matrix st) l)\<rparr>,
        calls := calls st @ [SetScalars 1 dt] @
          concat (map (\<lambda>l. [SetACoeffs l, SetShearViscosity l, SetEBShearViscosity l])
                    [0..<Suc (finestLevel (amrcore st))])\<rparr>"
  unfolding refresh_coeffs_def Let_def fold_refresh_level setScalars_def
  by (simp del: upt_Suc cong: if_cong)

subsection \<open>The right-hand side loop and the setup in closed form\<close>

lemma inbox_grow_0: "inbox (grow bx 0) c = inbox bx c"
  by (cases bx) (simp add: grow_def inbox_def split: prod.splits)

lemma rhs_level_closed:
  "rhs_level vel_in ro_in lev st =
     st\<lparr>phi := (phi st)
          (lev := phi_built (haloCC (amrcore st) lev) (boxArray (amrcore st) lev) (phi st lev)
                    (vel_in lev)),
        rhs := (rhs st)
          (lev := rhs_built (boxArray (amrcore st) lev) (rhs st lev) (vel_in lev) (ro_in lev)),
        matrix := (matrix st)
          \<lparr>op_level_bc := (op_level_bc (matrix st))
             (lev \<mapsto> phi_built (haloCC (amrcore st) lev) (boxArray (amrcore st) lev)
                       (phi st lev) (vel_in lev))\<rparr>,
        calls := calls st @ [SetLevelBC lev]\<rparr>"
  by (simp add: rhs_level_def Let_def upt_0_3 multiply_rhs_def rhs_built_def phi_built_def
      setLevelBC_def)

lemma fold_rhs_level:
  "fold (rhs_level vel_in ro_in) [0..<n] st =
     st\<lparr>phi := (\<lambda>l. if l < n
                   then phi_built (haloCC (amrcore st) l) (boxArray (amrcore st) l) (phi st l)
                          (vel_in l)
                   else phi st l),
        rhs := (\<lambda>l. if l < n
                   then rhs_built (boxArray (amrcore st) l) (rhs st l) (vel_in l) (ro_in l)
                   else rhs st l),
        matrix := (matrix st)
          \<lparr>op_level_bc := (\<lambda>l. if l < n
                  then Some (phi_built (haloCC (amrcore st) l) (boxArray (amrcore st) l)
                               (phi st l) (vel_in l))
                  else op_level_bc (matrix st) l)\<rparr>,
        calls := calls st @ map SetLevelBC [0..<n]\<rparr>"
proof (induction n)
  case 0
  show ?case by simp
next
  case (Suc n)
  have "fold (rhs_level vel_in ro_in) [0..<Suc n] st =
        rhs_level vel_in ro_in n (fold (rhs_level vel_in ro_in) [0..<n] st)"
    by simp
  also have "\<dots> = rhs_level vel_in ro_in n (st\<lparr>phi := (\<lambda>l. if l < n
                   then phi_built (haloCC (amrcore st) l) (boxArray (amrcore st) l) (phi st l)
                          (vel_in l)
                   else phi st l),
        rhs := (\<lambda>l. if l < n
                   then rhs_built (boxArray (amrcore st) l) (rhs st l) (vel_in l) (ro_in l)
                   else rhs st l),
        matrix := (matrix st)
          \<lparr>op_level_bc := (\<lambda>l. if l < n
                  then Some (phi_built (haloCC (amrcore st) l) (boxArray (amrcore st) l)
                               (phi st l) (vel_in l))
                  else op_level_bc (matrix st) l)\<rparr>,
        calls := calls st @ map SetLevelBC [0..<n]\<rparr>)"
    by (simp only: Suc)
  also have "\<dots> = st\<lparr>phi := (\<lambda>l. if l < Suc n
                   then phi_built (haloCC (amrcore st) l) (boxArray (amrcore st) l) (phi st l)
                          (vel_in l)
                   else phi st l),
        rhs := (\<lambda>l. if l < Suc n
                   then rhs_built (boxArray (amrcore st) l) (rhs st l) (vel_in l) (ro_in l)
                   else rhs st l),
        matrix := (matrix st)
          \<lparr>op_level_bc := (\<lambda>l. if l < Suc n
                  then Some (phi_built (haloCC (amrcore st) l) (boxArray (amrcore st) l)
                               (phi st l) (vel_in l))
                  else op_level_bc (matrix st) l)\<rparr>,
        calls := calls st @ map SetLevelBC [0..<Suc n]\<rparr>"
    unfolding rhs_level_closed
    by (simp add:
        fun_upd_below[where f="\<lambda>l. phi_built (haloCC (amrcore st) l) (boxArray (amrcore st) l) (phi st l) (vel_in l)"]
        fun_upd_below[where f="\<lambda>l. rhs_built (boxArray (amrcore st) l) (rhs st l) (vel_in l) (ro_in l)"]
        fun_upd_below_Some[where f="\<lambda>l. phi_built (haloCC (amrcore st) l) (boxArray (amrcore st) l) (phi st l) (vel_in l)"])
  finally show ?case .
qed

lemma solve_setup_closed:
  "solve_setup vel_in ro_in eta_in dt st =
     st\<lparr>b := (\<lambda>l. if l < Suc (finestLevel (amrcore st))
                  then b_refreshed (amrcore st) (nghost st) l (b st l) (eta_in l)
                  else b st l),
        phi := (\<lambda>l. if l < Suc (finestLevel (amrcore st))
                   then phi_built (haloCC (amrcore st) l) (boxArray (amrcore st) l) (phi st l)
                          (vel_in l)
                   else phi st l),
        rhs := (\<lambda>l. if l < Suc (finestLevel (amrcore st))
                   then rhs_built (boxArray (amrcore st) l) (rhs st l) (vel_in l) (ro_in l)
                   else rhs st l),
        matrix := (matrix st)
          \<lparr>op_alpha := Some 1, op_beta := Some dt,
           op_acoef := (\<lambda>l. if l < Suc (finestLevel (amrcore st)) then Some (ro_in l)
                            else op_acoef (matrix st) l),
           op_bcoef := (\<lambda>l. if l < Suc (finestLevel (amrcore st))
                            then Some (b_refreshed (amrcore st) (nghost st) l (b st l) (eta_in l))
                            else op_bcoef (matrix st) l),
           op_eb_visc := (\<lambda>l. if l < Suc (finestLevel (amrcore st)) then Some (eta_in l)
                              else op_eb_visc (matrix st) l),
           op_level_bc := (\<lambda>l. if l < Suc (finestLevel (amrcore st))
                  then Some (phi_built (haloCC (amrcore st) l) (boxArray (amrcore st) l)
                               (phi st l) (vel_in l))
                  else op_level_bc (matrix st) l)\<rparr>,
        out := (if verbose st > 0
                then out st @ [''Diffusing velocity components all together...'']
                else out st),
        calls := calls st @ setup_calls (finestLevel (amrcore st)) dt\<rparr>"
  unfolding solve_setup_def Let_def fold_rhs_level
  unfolding refresh_coeffs_closed Print_def setup_calls_def
  by (simp del: upt_Suc cong: if_cong)

subsection \<open>The copy back in closed form\<close>

lemma copy_back_level_closed:
  "copy_back_level lev (st, vel) =
     (st\<lparr>phi := (phi st)
          (lev := FillBoundary (haloCC (amrcore st) lev) (boxArray (amrcore st) lev) phi_nGrow
                    (phi st lev))\<rparr>,
      vel(lev := MultiFab_Copy (boxArray (amrcore st) lev) (vel lev)
                   (FillBoundary (haloCC (amrcore st) lev) (boxArray (amrcore st) lev) phi_nGrow
                      (phi st lev)) 0 0 3 1))"
  by (simp add: copy_back_level_def Let_def)

lemma fold_copy_back_level:
  "fold copy_back_level [0..<n] (st, vel) =
     (st\<lparr>phi := (\<lambda>l. if l < n
                    then FillBoundary (haloCC (amrcore st) l) (boxArray (amrcore st) l) phi_nGrow
                           (phi st l)
                    else phi st l)\<rparr>,
      (\<lambda>l. if l < n
           then MultiFab_Copy (boxArray (amrcore st) l) (vel l)
                  (FillBoundary (haloCC (amrcore st) l) (boxArray (amrcore st) l) phi_nGrow
                     (phi st l)) 0 0 3 1
           else vel l))"
proof (induction n)
  case 0
  show ?case by simp
next
  case (Suc n)
  have "fold copy_back_level [0..<Suc n] (st, vel) =
        copy_back_level n (fold copy_back_level [0..<n] (st, vel))"
    by simp
  also have "\<dots> = copy_back_level n (st\<lparr>phi := (\<lambda>l. if l < n
                    then FillBoundary (haloCC (amrcore st) l) (boxArray (amrcore st) l) phi_nGrow
                           (phi st l)
                    else phi st l)\<rparr>,
      (\<lambda>l. if l < n
           then MultiFab_Copy (boxArray (amrcore st) l) (vel l)
                  (FillBoundary (haloCC (amrcore st) l) (boxArray (amrcore st) l) phi_nGrow
                     (phi st l)) 0 0 3 1
           else vel l))"
    by (simp only: Suc)
  also have "\<dots> = (st\<lparr>phi := (\<lambda>l. if l < Suc n
                    then FillBoundary (haloCC (amrcore st) l) (boxArray (amrcore st) l) phi_nGrow
                           (phi st l)
                    else phi st l)\<rparr>,
      (\<lambda>l. if l < Suc n
           then MultiFab_Copy (boxArray (amrcore st) l) (vel l)
                  (FillBoundary (haloCC (amrcore st) l) (boxArray (amrcore st) l) phi_nGrow
                     (phi st l)) 0 0 3 1
           else vel l))"
    unfolding copy_back_level_closed
    by (simp add:
        fun_upd_below[where f="\<lambda>l. FillBoundary (haloCC (amrcore st) l) (boxArray (amrcore st) l) phi_nGrow (phi st l)"])
      (rule ext, simp add: less_Suc_eq)
  finally show ?case .
qed

lemma solve_finish_closed:
  "solve_finish vel_in st =
     (st\<lparr>phi := (\<lambda>l. if l < Suc (finestLevel (amrcore st))
                    then FillBoundary (haloCC (amrcore st) l) (boxArray (amrcore st) l) phi_nGrow
                           (phi st l)
                    else phi st l),
         out := (if verbose st > 0 then out st @ ['' done!''] else out st)\<rparr>,
      (\<lambda>l. if l < Suc (finestLevel (amrcore st))
           then MultiFab_Copy (boxArray (amrcore st) l) (vel_in l)
                  (FillBoundary (haloCC (amrcore st) l) (boxArray (amrcore st) l) phi_nGrow
                     (phi st l)) 0 0 3 1
           else vel_in l))"
  unfolding solve_finish_def fold_copy_back_level
  by (simp add: Print_def del: upt_Suc)

lemma rhs_built_valid:
  assumes "g < length ba" "inbox (ba ! g) c" "n < 3"
  shows "rhs_built ba r0 vel ro g c n = vel g c n * ro g c 0"
proof -
  have "n = 0 \<or> n = 1 \<or> n = 2" using assms(3) by arith
  then show ?thesis
    using assms(1,2)
    by (auto simp: rhs_built_def MultiFab_Multiply_def MultiFab_Copy_def rhs_nGrow_def inbox_grow_0)
qed

lemma b_refreshed_valid_face:
  assumes "dir < 3" "g < length (boxArray ac lev)"
    "inbox (surroundingNodes dir (boxArray ac lev ! g)) c"
  shows "b_refreshed ac ng lev fc e dir g c 0 = (e g (shift_lo dir c) 0 + e g c 0) / 2"
  using assms
  by (simp add: b_refreshed_def FillBoundary_def average_cellcenter_to_face_def)

subsection \<open>Halo exchange after an overwrite of valid data\<close>

lemma FillBoundary_not_ghost:
  "\<not> (g < length ba \<and> inbox (grow (ba ! g) ng) c \<and> \<not> inbox (ba ! g) c) \<Longrightarrow>
   FillBoundary P ba ng X g c n = X g c n"
  by (auto simp: FillBoundary_def)

lemma FillBoundary_ghost_src:
  "g < length ba \<and> inbox (grow (ba ! g) ng) c \<and> \<not> inbox (ba ! g) c \<Longrightarrow>
   P g c = Some (j, c') \<Longrightarrow> j < length ba \<and> inbox (ba ! j) c' \<Longrightarrow>
   FillBoundary P ba ng X g c n = X j c' n"
  by (auto simp: FillBoundary_def)

lemma FillBoundary_ghost_nosrc:
  "P g c = None \<or> (\<exists>j c'. P g c = Some (j, c') \<and> \<not> (j < length ba \<and> inbox (ba ! j) c')) \<Longrightarrow>
   FillBoundary P ba ng X g c n = X g c n"
  by (auto simp: FillBoundary_def)

lemma FillBoundary_valid:
  "g < length ba \<Longrightarrow> inbox (ba ! g) c \<Longrightarrow> FillBoundary P ba ng X g c n = X g c n"
  by (simp add: FillBoundary_def)

lemma fill_overwrite_idem:
  assumes W: "\<And>X g c n. W X g c n = (if V g c n then val g c n else X g c n)"
    and V: "\<And>g c n. V g c n \<Longrightarrow> g < length ba \<and> inbox (ba ! g) c"
  shows "FillBoundary P ba ng (W (FillBoundary P ba ng (W X))) = FillBoundary P ba ng (W X)"
proof (intro ext)
  fix g c n
  have valid: "W (FillBoundary P ba ng (W X)) j c' n = W X j c' n"
    if "j < length ba" "inbox (ba ! j) c'" for j c'
    using that by (simp add: W FillBoundary_valid)
  show "FillBoundary P ba ng (W (FillBoundary P ba ng (W X))) g c n
        = FillBoundary P ba ng (W X) g c n"
  proof (cases "g < length ba \<and> inbox (grow (ba ! g) ng) c \<and> \<not> inbox (ba ! g) c")
    case False
    then have ng: "\<And>Y. FillBoundary P ba ng Y g c n = Y g c n"
      by (rule FillBoundary_not_ghost)
    show ?thesis by (simp add: ng W)
  next
    case True
    then have nv: "\<not> V g c n" using V by blast
    have here: "W (FillBoundary P ba ng (W X)) g c n = FillBoundary P ba ng (W X) g c n"
      by (simp add: W nv)
    show ?thesis
    proof (cases "P g c")
      case None
      then show ?thesis using here by (simp add: FillBoundary_ghost_nosrc)
    next
      case (Some a)
      obtain j c' where a: "a = (j, c')" by (cases a)
      show ?thesis
      proof (cases "j < length ba \<and> inbox (ba ! j) c'")
        case v: True
        have "FillBoundary P ba ng (W (FillBoundary P ba ng (W X))) g c n
              = W (FillBoundary P ba ng (W X)) j c' n"
          using True Some a v by (simp add: FillBoundary_ghost_src)
        also have "\<dots> = W X j c' n" using v valid by simp
        also have "\<dots> = FillBoundary P ba ng (W X) g c n"
          using True Some a v by (simp add: FillBoundary_ghost_src)
        finally show ?thesis .
      next
        case nvj: False
        have ns: "\<And>Y. FillBoundary P ba ng Y g c n = Y g c n"
          using Some a nvj by (intro FillBoundary_ghost_nosrc) auto
        show ?thesis using here by (simp add: ns)
      qed
    qed
  qed
qed

lemma b_refreshed_idem:
  "b_refreshed ac ng lev (b_refreshed ac ng lev fc e) e = b_refreshed ac ng lev fc e"
proof (rule ext)
  fix dir
  let ?ba = "boxArray ac lev"
  show "b_refreshed ac ng lev (b_refreshed ac ng lev fc e) e dir = b_refreshed ac ng lev fc e dir"
  proof (cases "dir < 3")
    case False
    then show ?thesis by (simp add: b_refreshed_def average_cellcenter_to_face_def)
  next
    case True
    define W :: "multifab \<Rightarrow> multifab" where
      "W = (\<lambda>X g c n. if g < length ?ba \<and> inbox (surroundingNodes dir (?ba ! g)) c \<and> n = 0
                      then (e g (shift_lo dir c) 0 + e g c 0) / 2 else X g c n)"
    have avg: "average_cellcenter_to_face ?ba f e dir = W (f dir)" for f
      using True by (simp add: average_cellcenter_to_face_def W_def)
    have idem: "FillBoundary (haloFC ac lev dir) (map (surroundingNodes dir) ?ba) ng
            (W (FillBoundary (haloFC ac lev dir) (map (surroundingNodes dir) ?ba) ng (W (fc dir))))
          = FillBoundary (haloFC ac lev dir) (map (surroundingNodes dir) ?ba) ng (W (fc dir))"
      by (rule fill_overwrite_idem[where V="\<lambda>g c n. g < length ?ba \<and> inbox (surroundingNodes dir (?ba ! g)) c \<and> n = 0"
            and val="\<lambda>g c n. (e g (shift_lo dir c) 0 + e g c 0) / 2"])
        (simp_all add: W_def)
    have inner: "b_refreshed ac ng lev fc e dir
        = FillBoundary (haloFC ac lev dir) (map (surroundingNodes dir) ?ba) ng (W (fc dir))"
      using True by (simp add: b_refreshed_def avg)
    have "b_refreshed ac ng lev (b_refreshed ac ng lev fc e) e dir
        = FillBoundary (haloFC ac lev dir) (map (surroundingNodes dir) ?ba) ng
            (W (b_refreshed ac ng lev fc e dir))"
      using True by (simp add: b_refreshed_def[of ac ng lev "b_refreshed ac ng lev fc e"] avg)
    then show ?thesis using idem inner by simp
  qed
qed

subsection \<open>The whole of solve\<close>


lemma solve_closed:
  "solve mlmg_new ext_solve vel_in ro_in eta_in dt st =
     (let st1 = solve_setup vel_in ro_in eta_in dt st;
          st2 = st1\<lparr>calls := calls st @ setup_calls (finestLevel (amrcore st)) dt @ [MLMG_solve]\<rparr>
      in case ext_solve (matrix st1) ((setSolverSettings st mlmg_new)\<lparr>final_fill_bc := True\<rparr>)
                (phi st1) (rhs st1) (mg_rtol st) (mg_atol st) of
           None \<Rightarrow> Aborted (st2, vel_in)
         | Some phi' \<Rightarrow> Returned (solve_finish vel_in (st2\<lparr>phi := phi'\<rparr>)))"
proof -
  have s: "setSolverSettings (solve_setup vel_in ro_in eta_in dt st) mlmg_new
           = setSolverSettings st mlmg_new"
    by (simp add: setSolverSettings_def solve_setup_closed Let_def del: upt_Suc)
  have c: "calls (solve_setup vel_in ro_in eta_in dt st)
           = calls st @ setup_calls (finestLevel (amrcore st)) dt"
    "mg_rtol (solve_setup vel_in ro_in eta_in dt st) = mg_rtol st"
    "mg_atol (solve_setup vel_in ro_in eta_in dt st) = mg_atol st"
    by (simp_all add: solve_setup_closed del: upt_Suc)
  show ?thesis
    by (simp add: solve_def Let_def s c split: option.splits del: upt_Suc)
qed




lemma inbox_grow: "inbox bx c \<Longrightarrow> inbox (grow bx n) c"
  by (cases bx) (auto simp: grow_def inbox_def split: prod.splits)

lemma filter_setup_calls_scalars:
  "filter is_SetScalars (setup_calls finest dt) = [SetScalars 1 dt]"
  by (simp add: setup_calls_def is_SetScalars_def filter_concat comp_def del: upt_Suc)

lemma solve_returned:
  assumes "ext_solve (matrix (solve_setup vel_in ro_in eta_in dt st))
             ((setSolverSettings st mlmg_new)\<lparr>final_fill_bc := True\<rparr>)
             (phi (solve_setup vel_in ro_in eta_in dt st))
             (rhs (solve_setup vel_in ro_in eta_in dt st)) (mg_rtol st) (mg_atol st) = Some phi_sol"
  shows "solve mlmg_new ext_solve vel_in ro_in eta_in dt st =
     Returned
       ((solve_setup vel_in ro_in eta_in dt st)
          \<lparr>phi := (\<lambda>l. if l < Suc (finestLevel (amrcore st))
                    then FillBoundary (haloCC (amrcore st) l) (boxArray (amrcore st) l) phi_nGrow
                           (phi_sol l)
                    else phi_sol l),
           out := (if verbose st > 0
                   then out st @ [''Diffusing velocity components all together...'', '' done!'']
                   else out st),
           calls := calls st @ setup_calls (finestLevel (amrcore st)) dt @ [MLMG_solve]\<rparr>,
        (\<lambda>l. if l < Suc (finestLevel (amrcore st))
             then MultiFab_Copy (boxArray (amrcore st) l) (vel_in l)
                    (FillBoundary (haloCC (amrcore st) l) (boxArray (amrcore st) l) phi_nGrow
                       (phi_sol l)) 0 0 3 1
             else vel_in l))"
proof -
  have f: "amrcore (solve_setup vel_in ro_in eta_in dt st) = amrcore st"
    "verbose (solve_setup vel_in ro_in eta_in dt st) = verbose st"
    "out (solve_setup vel_in ro_in eta_in dt st)
       = (if verbose st > 0 then out st @ [''Diffusing velocity components all together...'']
          else out st)"
    by (simp_all add: solve_setup_closed del: upt_Suc)
  show ?thesis
    unfolding solve_closed Let_def assms
    by (simp add: solve_finish_closed f del: upt_Suc cong: if_cong)
qed

subsection \<open>The small configuration\<close>

lemma ex_boxes:
  "inbox ex_boxA c \<longleftrightarrow> c = (0, 0, 0) \<or> c = (1, 0, 0)"
  "inbox ex_boxB c \<longleftrightarrow> c = (2, 0, 0) \<or> c = (3, 0, 0)"
  by (cases c; auto simp: inbox_def ex_boxA_def ex_boxB_def)+

lemma ex_box_cells:
  "box_cells ex_boxA = [(0, 0, 0), (1, 0, 0)]"
  "box_cells ex_boxB = [(2, 0, 0), (3, 0, 0)]"
  by (simp_all add: box_cells_def ex_boxA_def ex_boxB_def upto.simps)

lemma ex_flags:
  "cellFlags (ex_ebfactory lev) g c = (if g = 0 \<and> c = (0, 0, 0) then SingleValued else Regular)"
  by (simp add: ex_ebfactory_def)

lemma ex_normal:
  "bndryNormal (ex_ebfactory lev) g c n =
     (if g = 0 \<and> c = (0, 0, 0) \<and> n = 0 then (- 1, True) else (0, False))"
  by (simp add: ex_ebfactory_def)

lemma ex_getType:
  "getType (cellFlags (ex_ebfactory lev) 0) ex_boxA = singlevalued"
  "getType (cellFlags (ex_ebfactory lev) 1) ex_boxB = regular"
  "getType (cellFlags (ex_ebfactory lev) (Suc 0)) ex_boxB = regular"
  by (simp_all add: getType_def ex_box_cells ex_flags)

lemma atan2_neg_zeros: "atan2 (neg_sz (0, False)) (neg_sz (0, False)) = - pi"
  by (simp add: atan2_def neg_sz_def)

lemma atan2_cut_cell: "atan2 (neg_sz (0, False)) (neg_sz (- 1, True)) = 0"
  by (simp add: atan2_def neg_sz_def)

lemma ex_diffeq_closed:
  "ex_diffeq m =
     (ex_object m)\<lparr>nghost := 1, cyl_speed := 1, bc_lo := [0, 0, 0], bc_hi := [0, 0, 0],
        vel_eb := vel_eb (ex_diffeq m),
        matrix := ex_linop\<lparr>op_max_coarsening_level := 100, op_max_order := 3,
                    op_domain_bc := ([0, 0, 0], [0, 0, 0])\<rparr>\<rparr>"
proof -
  have r: "readParameters ex_pp (ex_object m) = ex_object m"
    by (simp add: readParameters_def ex_pp_def query_def)
  have v: "verbose (ex_object m) = 0" by (simp add: ex_object_def)
  show ?thesis
    unfolding ex_diffeq_def DiffusionEquation_new_closed Let_def r
    by (simp add: v ex_object_def del: upt_Suc set_upt)
qed

lemma ex_diffeq_fields:
  "amrcore (ex_diffeq m) = ex_amrcore"
  "nghost (ex_diffeq m) = 1"
  "verbose (ex_diffeq m) = 0"
  "b (ex_diffeq m) = (\<lambda>lev dir g c n. m)"
  "phi (ex_diffeq m) = (\<lambda>lev g c n. m)"
  "rhs (ex_diffeq m) = (\<lambda>lev g c n. m)"
  "calls (ex_diffeq m) = []"
  "out (ex_diffeq m) = []"
  "op_eb_dirichlet (matrix (ex_diffeq m)) = (\<lambda>lev. None)"
  "op_eb_visc (matrix (ex_diffeq m)) = (\<lambda>lev. None)"
  by (subst ex_diffeq_closed, simp add: ex_object_def ex_linop_def)+

lemma ex_amrcore_fields:
  "finestLevel ex_amrcore = 0"
  "maxLevel ex_amrcore = 1"
  "boxArray ex_amrcore lev = [ex_boxA, ex_boxB]"
  "haloCC ex_amrcore lev g c =
     (if g = 0 \<and> c = (2, 0, 0) then Some (1, (2, 0, 0))
      else if g = 1 \<and> c = (1, 0, 0) then Some (0, (1, 0, 0)) else None)"
  by (simp_all add: ex_amrcore_def)

lemma ex_solve_returns:
  "solve ex_mlmg ex_solve vel_in ro_in eta_in dt st
     = Returned (fst (carried (solve ex_mlmg ex_solve vel_in ro_in eta_in dt st)),
                 snd (carried (solve ex_mlmg ex_solve vel_in ro_in eta_in dt st)))"
  by (simp add: solve_def Let_def ex_solve_def carried_def del: upt_Suc)

section \<open>The claims\<close>




text \<open>
  C2, as amended. The constructor decides per tile, not per cell. For a level up to
  \<open>max_level\<close> and a cell \<open>c\<close> of a tile \<open>bx\<close> of grid \<open>g\<close> (the only tile of the
  level that holds the cell): when the tile as a whole is classified covered or
  regular, component 0 of the stored vector is 0; otherwise, whether the cell itself
  is cut or not, components 0 and 1 are \<open>speed * sin theta\<close> and
  \<open>- speed * cos theta\<close> with \<open>theta = atan2 (- ny) (- nx)\<close> from the cell's normal.
\<close>

theorem C2_vel_eb_by_tile_type:
  assumes "lev \<le> maxLevel ac"
    and "(g, bx) \<in> set (tiles lev)"
    and "inbox bx c"
    and "\<forall>t\<in>set (tiles lev). fst t = g \<and> inbox (snd t) c \<longrightarrow> snd t = bx"
  shows "if getType (cellFlags (ebf lev) g) bx = covered \<or> getType (cellFlags (ebf lev) g) bx = regular
         then vel_eb (DiffusionEquation_new pp tiles lo hi st0 ac ebf ng sp) lev g c 0 = 0
         else vel_eb (DiffusionEquation_new pp tiles lo hi st0 ac ebf ng sp) lev g c 0
                = sp * sin (atan2 (neg_sz (bndryNormal (ebf lev) g c 1)) (neg_sz (bndryNormal (ebf lev) g c 0)))
            \<and> vel_eb (DiffusionEquation_new pp tiles lo hi st0 ac ebf ng sp) lev g c 1
                = - sp * cos (atan2 (neg_sz (bndryNormal (ebf lev) g c 1)) (neg_sz (bndryNormal (ebf lev) g c 0)))"
proof -
  have ex: "\<exists>t\<in>set (tiles lev). fst t = g \<and> inbox (snd t) c"
    using assms(2,3) by force
  have v: "vel_eb (DiffusionEquation_new pp tiles lo hi st0 ac ebf ng sp) lev
           = fold (fill_tile sp (ebf lev)) (tiles lev) (vel_eb st0 lev)"
    using assms(1) by (simp add: vel_eb_new)
  show ?thesis
  proof (cases "getType (cellFlags (ebf lev) g) bx = covered \<or> getType (cellFlags (ebf lev) g) bx = regular")
    case True
    have "\<forall>t\<in>set (tiles lev). fst t = g \<and> inbox (snd t) c \<longrightarrow>
           getType (cellFlags (ebf lev) g) (snd t) = covered \<or> getType (cellFlags (ebf lev) g) (snd t) = regular"
      using assms(4) True by auto
    from fold_fill_tile_uniform[OF ex this] True show ?thesis by (simp add: v)
  next
    case False
    have "\<forall>t\<in>set (tiles lev). fst t = g \<and> inbox (snd t) c \<longrightarrow>
           \<not> (getType (cellFlags (ebf lev) g) (snd t) = covered \<or> getType (cellFlags (ebf lev) g) (snd t) = regular)"
      using assms(4) False by auto
    from fold_fill_tile_cut[OF ex this] False show ?thesis by (simp add: v)
  qed
qed

text \<open>
  The amended statement on the small configuration, every word of the allocated
  memory holding 7. In the cut tile: the cut cell \<open>(0,0,0)\<close> of grid 0 (normal
  \<open>(-1,0,0)\<close>, so \<open>theta = 0\<close>) holds x = 0 and y = -1, and its regular neighbour
  \<open>(1,0,0)\<close> (normal 0, so \<open>theta = atan2(-0.0, -0.0) = -\<pi>\<close>) holds y = +1. In the
  regular tile: cell \<open>(2,0,0)\<close> of grid 1 holds x = 0.
\<close>

theorem C2_vel_eb_by_tile_type_witness:
  "vel_eb (ex_diffeq 7) 0 0 (0, 0, 0) 0 = 0
   \<and> vel_eb (ex_diffeq 7) 0 0 (0, 0, 0) 1 = - 1
   \<and> vel_eb (ex_diffeq 7) 0 0 (1, 0, 0) 1 = 1
   \<and> vel_eb (ex_diffeq 7) 0 1 (2, 0, 0) 0 = 0"
proof -
  have l: "(0::nat) \<le> maxLevel ex_amrcore" by simp
  have a: "(0, ex_boxA) \<in> set (ex_tiles 0)" "inbox ex_boxA (0, 0, 0)"
    "\<forall>t\<in>set (ex_tiles 0). fst t = 0 \<and> inbox (snd t) (0, 0, 0) \<longrightarrow> snd t = ex_boxA"
    by (simp_all add: ex_tiles_def ex_boxes)
  have a': "(0, ex_boxA) \<in> set (ex_tiles 0)" "inbox ex_boxA (1, 0, 0)"
    "\<forall>t\<in>set (ex_tiles 0). fst t = 0 \<and> inbox (snd t) (1, 0, 0) \<longrightarrow> snd t = ex_boxA"
    by (simp_all add: ex_tiles_def ex_boxes)
  have b: "(1, ex_boxB) \<in> set (ex_tiles 0)" "inbox ex_boxB (2, 0, 0)"
    "\<forall>t\<in>set (ex_tiles 0). fst t = 1 \<and> inbox (snd t) (2, 0, 0) \<longrightarrow> snd t = ex_boxB"
    by (simp_all add: ex_tiles_def ex_boxes)
  show ?thesis
    using C2_vel_eb_by_tile_type[where lev=0 and ac=ex_amrcore and g=0 and bx=ex_boxA
        and tiles=ex_tiles and c="(0, 0, 0)" and ebf=ex_ebfactory and pp=ex_pp
        and lo="[0, 0, 0]" and hi="[0, 0, 0]" and ?st0.0="ex_object 7" and ng=1 and sp=1, OF l a]
      C2_vel_eb_by_tile_type[where lev=0 and ac=ex_amrcore and g=0 and bx=ex_boxA
        and tiles=ex_tiles and c="(1, 0, 0)" and ebf=ex_ebfactory and pp=ex_pp
        and lo="[0, 0, 0]" and hi="[0, 0, 0]" and ?st0.0="ex_object 7" and ng=1 and sp=1, OF l a']
      C2_vel_eb_by_tile_type[where lev=0 and ac=ex_amrcore and g=1 and bx=ex_boxB
        and tiles=ex_tiles and c="(2, 0, 0)" and ebf=ex_ebfactory and pp=ex_pp
        and lo="[0, 0, 0]" and hi="[0, 0, 0]" and ?st0.0="ex_object 7" and ng=1 and sp=1, OF l b]
    by (simp add: ex_getType ex_diffeq_def ex_normal atan2_neg_zeros atan2_cut_cell)
qed

text \<open>
  C2 as stated fails. In the small configuration, with the allocated memory all
  zero and speed 1, cell \<open>(1,0,0)\<close> of grid 0 is regular (fully inside the fluid) but
  shares its tile with the cut cell \<open>(0,0,0)\<close>: the loop of the \<^verbatim>\<open>else\<close> branch
  assigns it too. Its normal is zero, \<open>theta = atan2(-0.0, -0.0) = -\<pi>\<close>, and its y
  component is \<open>- cos (-\<pi>) = 1\<close>, not zero.
\<close>

theorem C2_regular_cell_in_cut_tile_counterexample:
  "cellFlags (ex_ebfactory 0) 0 (1, 0, 0) = Regular
   \<and> vel_eb (ex_diffeq 0) 0 0 (1, 0, 0) 1 = 1"
proof -
  have "vel_eb (ex_diffeq 0) 0 0 (1, 0, 0) 1 = 1"
    by (simp add: ex_diffeq_def vel_eb_new ex_amrcore_def ex_tiles_def fill_tile_def ex_getType
        fill_cell_def Let_def ex_box_cells ex_normal atan2_neg_zeros atan2_cut_cell setVal_def
        ex_boxes)
  then show ?thesis by (simp add: ex_flags)
qed

text \<open>
  C3. The cut-cell branch assigns components 0 and 1 and leaves component 2 alone:
  in the small configuration with every word of the allocated memory holding 7, the
  cut cell \<open>(0,0,0)\<close> of grid 0 (normal \<open>(-1,0,0)\<close>, speed 1) ends with the vector
  \<open>(0, -1, 7)\<close>, where the claim has a third component of 0.
\<close>

theorem C3_z_component_not_assigned:
  "cellFlags (ex_ebfactory 0) 0 (0, 0, 0) = SingleValued
   \<and> getType (cellFlags (ex_ebfactory 0) 0) ex_boxA = singlevalued
   \<and> inbox ex_boxA (0, 0, 0)
   \<and> vel_eb (ex_diffeq 7) 0 0 (0, 0, 0) 0 = 0
   \<and> vel_eb (ex_diffeq 7) 0 0 (0, 0, 0) 1 = - 1
   \<and> vel_eb (ex_diffeq 7) 0 0 (0, 0, 0) 2 = 7"
  by (simp add: ex_diffeq_def vel_eb_new ex_amrcore_def ex_tiles_def fill_tile_def ex_getType
      fill_cell_def Let_def ex_box_cells ex_normal ex_flags atan2_neg_zeros atan2_cut_cell
      setVal_def ex_boxes ex_object_def)

text \<open>
  C4. When \<^verbatim>\<open>solve\<close> reaches the solver, the operator holds \<open>alpha = 1\<close> and
  \<open>beta = dt\<close>, set by the one \<^verbatim>\<open>setScalars\<close> call that opens the calls made (so once,
  not per level), and for every level \<open>lev\<close> up to the finest: the density of the level
  as the \<open>a\<close> coefficient, the level's three face arrays as the \<open>b\<close> coefficient,
  which on every face of the level's grids hold the mean of the viscosity in the two
  cells sharing the face, and the cell-centred viscosity as the embedded-boundary
  coefficient. The last conjunct is the place of the solver in \<^verbatim>\<open>solve\<close>: it is
  called on the operator of this state.
\<close>

theorem C4_solve_configures_operator:
  assumes "lev \<le> finestLevel (amrcore st)"
  shows "op_alpha (matrix (solve_setup vel_in ro_in eta_in dt st)) = Some 1
   \<and> op_beta (matrix (solve_setup vel_in ro_in eta_in dt st)) = Some dt
   \<and> calls (solve_setup vel_in ro_in eta_in dt st)
       = calls st @ setup_calls (finestLevel (amrcore st)) dt
   \<and> filter is_SetScalars (setup_calls (finestLevel (amrcore st)) dt) = [SetScalars 1 dt]
   \<and> op_acoef (matrix (solve_setup vel_in ro_in eta_in dt st)) lev = Some (ro_in lev)
   \<and> op_bcoef (matrix (solve_setup vel_in ro_in eta_in dt st)) lev
       = Some (b_refreshed (amrcore st) (nghost st) lev (b st lev) (eta_in lev))
   \<and> (\<forall>dir g c. dir < 3 \<and> g < length (boxArray (amrcore st) lev)
          \<and> inbox (surroundingNodes dir (boxArray (amrcore st) lev ! g)) c \<longrightarrow>
        b_refreshed (amrcore st) (nghost st) lev (b st lev) (eta_in lev) dir g c 0
          = (eta_in lev g (shift_lo dir c) 0 + eta_in lev g c 0) / 2)
   \<and> op_eb_visc (matrix (solve_setup vel_in ro_in eta_in dt st)) lev = Some (eta_in lev)
   \<and> solve mlmg_new ext_solve vel_in ro_in eta_in dt st =
       (let st1 = solve_setup vel_in ro_in eta_in dt st;
            st2 = st1\<lparr>calls := calls st @ setup_calls (finestLevel (amrcore st)) dt @ [MLMG_solve]\<rparr>
        in case ext_solve (matrix st1) ((setSolverSettings st mlmg_new)\<lparr>final_fill_bc := True\<rparr>)
                  (phi st1) (rhs st1) (mg_rtol st) (mg_atol st) of
             None \<Rightarrow> Aborted (st2, vel_in)
           | Some phi' \<Rightarrow> Returned (solve_finish vel_in (st2\<lparr>phi := phi'\<rparr>)))"
proof -
  have l: "lev < Suc (finestLevel (amrcore st))" using assms by simp
  have m: "op_alpha (matrix (solve_setup vel_in ro_in eta_in dt st)) = Some 1"
    "op_beta (matrix (solve_setup vel_in ro_in eta_in dt st)) = Some dt"
    "calls (solve_setup vel_in ro_in eta_in dt st)
       = calls st @ setup_calls (finestLevel (amrcore st)) dt"
    "op_acoef (matrix (solve_setup vel_in ro_in eta_in dt st)) lev = Some (ro_in lev)"
    "op_bcoef (matrix (solve_setup vel_in ro_in eta_in dt st)) lev
       = Some (b_refreshed (amrcore st) (nghost st) lev (b st lev) (eta_in lev))"
    "op_eb_visc (matrix (solve_setup vel_in ro_in eta_in dt st)) lev = Some (eta_in lev)"
    using l by (simp_all add: solve_setup_closed del: upt_Suc)
  have f: "\<forall>dir g c. dir < 3 \<and> g < length (boxArray (amrcore st) lev)
          \<and> inbox (surroundingNodes dir (boxArray (amrcore st) lev ! g)) c \<longrightarrow>
        b_refreshed (amrcore st) (nghost st) lev (b st lev) (eta_in lev) dir g c 0
          = (eta_in lev g (shift_lo dir c) 0 + eta_in lev g c 0) / 2"
    by (simp add: b_refreshed_valid_face)
  show ?thesis
    using m f filter_setup_calls_scalars[of "finestLevel (amrcore st)" dt]
      solve_closed[of mlmg_new ext_solve vel_in ro_in eta_in dt st]
    by (simp only: simp_thms)
qed

text \<open>
  The statement on the small configuration at level 0, with \<open>dt = 1/2\<close>: the scalars,
  the five calls in their order, the two cell-centred coefficients, and the value 4 on
  face \<open>(1,0,0)\<close> of direction 0 (the mean of the viscosity 4 on both sides).
\<close>

theorem C4_solve_configures_operator_witness:
  "op_alpha (matrix (solve_setup ex_vel ex_ro ex_eta (1 / 2) (ex_diffeq 0))) = Some 1
   \<and> op_beta (matrix (solve_setup ex_vel ex_ro ex_eta (1 / 2) (ex_diffeq 0))) = Some (1 / 2)
   \<and> calls (solve_setup ex_vel ex_ro ex_eta (1 / 2) (ex_diffeq 0))
       = [SetScalars 1 (1 / 2), SetACoeffs 0, SetShearViscosity 0, SetEBShearViscosity 0,
          SetLevelBC 0]
   \<and> op_acoef (matrix (solve_setup ex_vel ex_ro ex_eta (1 / 2) (ex_diffeq 0))) 0 = Some (ex_ro 0)
   \<and> op_eb_visc (matrix (solve_setup ex_vel ex_ro ex_eta (1 / 2) (ex_diffeq 0))) 0 = Some (ex_eta 0)
   \<and> b_refreshed ex_amrcore 1 0 (b (ex_diffeq 0) 0) (ex_eta 0) 0 0 (1, 0, 0) 0 = 4"
proof -
  have l: "(0::nat) \<le> finestLevel (amrcore (ex_diffeq 0))"
    by simp
  note t = C4_solve_configures_operator[OF l, of ex_vel ex_ro ex_eta "1 / 2" ex_mlmg ex_solve]
  from t have face: "\<forall>dir g c. dir < 3 \<and> g < length (boxArray (amrcore (ex_diffeq 0)) 0)
          \<and> inbox (surroundingNodes dir (boxArray (amrcore (ex_diffeq 0)) 0 ! g)) c \<longrightarrow>
        b_refreshed (amrcore (ex_diffeq 0)) (nghost (ex_diffeq 0)) 0 (b (ex_diffeq 0) 0) (ex_eta 0) dir g c 0
          = (ex_eta 0 g (shift_lo dir c) 0 + ex_eta 0 g c 0) / 2"
    by blast
  have "inbox (surroundingNodes 0 ex_boxA) (1, 0, 0)"
    by (simp add: surroundingNodes_def ex_boxA_def inbox_def)
  with face[rule_format, of 0 0 "(1, 0, 0)"]
  have f: "b_refreshed ex_amrcore 1 0 (b (ex_diffeq 0) 0) (ex_eta 0) 0 0 (1, 0, 0) 0 = 4"
    by (simp add: ex_diffeq_fields ex_amrcore_fields ex_eta_def)
  from t f show ?thesis
    by (simp add: ex_diffeq_fields ex_amrcore_fields setup_calls_def)
qed

text \<open>
  C5. When \<^verbatim>\<open>solve\<close> reaches the solver, the right-hand side of every level \<open>lev\<close>
  up to the finest holds, in every valid cell \<open>c\<close> of every grid \<open>g\<close> and for each
  of the three components \<open>n\<close>, the density (component 0) times component \<open>n\<close> of
  the velocity passed in. The second conjunct is the place of the solver in
  \<^verbatim>\<open>solve\<close>: it is called on the right-hand side of this state.
\<close>

theorem C5_rhs_is_density_times_velocity:
  assumes "lev \<le> finestLevel (amrcore st)"
    and "g < length (boxArray (amrcore st) lev)"
    and "inbox (boxArray (amrcore st) lev ! g) c"
    and "n < 3"
  shows "rhs (solve_setup vel_in ro_in eta_in dt st) lev g c n = ro_in lev g c 0 * vel_in lev g c n
   \<and> solve mlmg_new ext_solve vel_in ro_in eta_in dt st =
       (let st1 = solve_setup vel_in ro_in eta_in dt st;
            st2 = st1\<lparr>calls := calls st @ setup_calls (finestLevel (amrcore st)) dt @ [MLMG_solve]\<rparr>
        in case ext_solve (matrix st1) ((setSolverSettings st mlmg_new)\<lparr>final_fill_bc := True\<rparr>)
                  (phi st1) (rhs st1) (mg_rtol st) (mg_atol st) of
             None \<Rightarrow> Aborted (st2, vel_in)
           | Some phi' \<Rightarrow> Returned (solve_finish vel_in (st2\<lparr>phi := phi'\<rparr>)))"
proof -
  have l: "lev < Suc (finestLevel (amrcore st))" using assms(1) by simp
  have "rhs (solve_setup vel_in ro_in eta_in dt st) lev
        = rhs_built (boxArray (amrcore st) lev) (rhs st lev) (vel_in lev) (ro_in lev)"
    using l by (simp add: solve_setup_closed del: upt_Suc)
  then have "rhs (solve_setup vel_in ro_in eta_in dt st) lev g c n
             = ro_in lev g c 0 * vel_in lev g c n"
    using rhs_built_valid[OF assms(2,3,4)] by simp
  then show ?thesis
    using solve_closed[of mlmg_new ext_solve vel_in ro_in eta_in dt st] by (simp only: simp_thms)
qed

text \<open>
  On the small configuration: density 3 times velocity 2, in cell \<open>(1,0,0)\<close> of grid 0,
  component 2.
\<close>

theorem C5_rhs_is_density_times_velocity_witness:
  "rhs (solve_setup ex_vel ex_ro ex_eta (1 / 2) (ex_diffeq 0)) 0 0 (1, 0, 0) 2 = 6"
proof -
  have h: "(0::nat) \<le> finestLevel (amrcore (ex_diffeq 0))"
    "0 < length (boxArray (amrcore (ex_diffeq 0)) 0)"
    "inbox (boxArray (amrcore (ex_diffeq 0)) 0 ! 0) (1, 0, 0)"
    "(2::nat) < 3"
    by (simp_all add: ex_diffeq_fields ex_amrcore_fields ex_boxes)
  from C5_rhs_is_density_times_velocity[OF h, of ex_vel ex_ro ex_eta "1 / 2" ex_mlmg ex_solve]
  show ?thesis by (simp add: ex_ro_def ex_vel_def)
qed

text \<open>
  C6. When \<^verbatim>\<open>solve\<close> returns, with \<open>phi_sol\<close> what the solver returned: on every
  level up to the finest, every valid cell of the caller's velocity holds the solver's
  result in its three components; on every level above the finest the caller's
  velocity is the one passed in.
\<close>

theorem C6_solve_overwrites_active_levels_only:
  assumes "solve mlmg_new ext_solve vel_in ro_in eta_in dt st = Returned (st', vel')"
    and "ext_solve (matrix (solve_setup vel_in ro_in eta_in dt st))
             ((setSolverSettings st mlmg_new)\<lparr>final_fill_bc := True\<rparr>)
             (phi (solve_setup vel_in ro_in eta_in dt st))
             (rhs (solve_setup vel_in ro_in eta_in dt st)) (mg_rtol st) (mg_atol st) = Some phi_sol"
  shows "(\<forall>lev g c n. lev \<le> finestLevel (amrcore st) \<and> g < length (boxArray (amrcore st) lev)
            \<and> inbox (boxArray (amrcore st) lev ! g) c \<and> n < 3 \<longrightarrow>
          vel' lev g c n = phi_sol lev g c n)
       \<and> (\<forall>lev. finestLevel (amrcore st) < lev \<longrightarrow> vel' lev = vel_in lev)"
proof -
  have v: "vel' = (\<lambda>l. if l < Suc (finestLevel (amrcore st))
             then MultiFab_Copy (boxArray (amrcore st) l) (vel_in l)
                    (FillBoundary (haloCC (amrcore st) l) (boxArray (amrcore st) l) phi_nGrow
                       (phi_sol l)) 0 0 3 1
             else vel_in l)"
    using assms(1) solve_returned[where ext_solve=ext_solve and vel_in=vel_in and ro_in=ro_in
        and eta_in=eta_in and dt=dt and st=st and mlmg_new=mlmg_new and phi_sol=phi_sol, OF assms(2)] by simp
  show ?thesis
    unfolding v
    by (auto simp: MultiFab_Copy_def FillBoundary_valid inbox_grow)
qed

text \<open>
  On the small configuration (finest level 0, maximal level 1): a valid cell of
  level 0 holds the solver's value 11 of grid 1, and level 1 holds the velocity passed
  in.
\<close>

theorem C6_solve_overwrites_active_levels_only_witness:
  "snd (carried (solve ex_mlmg ex_solve ex_vel ex_ro ex_eta (1 / 2) (ex_diffeq 0))) 0 1 (2, 0, 0) 0 = 11
   \<and> snd (carried (solve ex_mlmg ex_solve ex_vel ex_ro ex_eta (1 / 2) (ex_diffeq 0))) 1 = ex_vel 1"
proof -
  have h2: "ex_solve (matrix (solve_setup ex_vel ex_ro ex_eta (1 / 2) (ex_diffeq 0)))
             ((setSolverSettings (ex_diffeq 0) ex_mlmg)\<lparr>final_fill_bc := True\<rparr>)
             (phi (solve_setup ex_vel ex_ro ex_eta (1 / 2) (ex_diffeq 0)))
             (rhs (solve_setup ex_vel ex_ro ex_eta (1 / 2) (ex_diffeq 0)))
             (mg_rtol (ex_diffeq 0)) (mg_atol (ex_diffeq 0)) = Some ex_phi_sol"
    by (simp add: ex_solve_def)
  note t = C6_solve_overwrites_active_levels_only[OF ex_solve_returns h2]
  from t have a: "\<forall>lev g c n. lev \<le> finestLevel (amrcore (ex_diffeq 0))
            \<and> g < length (boxArray (amrcore (ex_diffeq 0)) lev)
            \<and> inbox (boxArray (amrcore (ex_diffeq 0)) lev ! g) c \<and> n < 3 \<longrightarrow>
          snd (carried (solve ex_mlmg ex_solve ex_vel ex_ro ex_eta (1 / 2) (ex_diffeq 0))) lev g c n
            = ex_phi_sol lev g c n"
    and b: "\<forall>lev. finestLevel (amrcore (ex_diffeq 0)) < lev \<longrightarrow>
          snd (carried (solve ex_mlmg ex_solve ex_vel ex_ro ex_eta (1 / 2) (ex_diffeq 0))) lev
            = ex_vel lev"
    by blast+
  from a[rule_format, of 0 1 "(2, 0, 0)" 0] b[rule_format, of 1]
  show ?thesis
    by (simp add: ex_diffeq_fields ex_amrcore_fields ex_boxes ex_phi_sol_def)
qed

text \<open>
  C7. \<^verbatim>\<open>updateInternals\<close> never returns: for every object and every argument the
  outcome is the abort, one diagnostic line has been printed, and the object at the
  abort differs from the object at the call in the printed output only.
\<close>

theorem C7_updateInternals_aborts:
  "updateInternals amrcore_in ebfactory_in st =
     Aborted (st\<lparr>out := out st @ [''ERROR: DiffusionEquation::updateInternals() not yet implemented'']\<rparr>)
   \<and> (\<forall>st'. updateInternals amrcore_in ebfactory_in st \<noteq> Returned st')"
  by (simp add: updateInternals_def Print_def)

text \<open>
  C8. \<^verbatim>\<open>setSolverSettings\<close> selects the smoother bottom solver for the string
  "smoother" and the hypre bottom solver for "hypre"; for every other string the
  solver keeps the bottom solver it had (the library's default on the freshly built
  solver), and nothing is rejected: the function is total. On every path the three
  iteration caps and the two verbosity levels are set from the configuration and the
  final halo fill is requested.
\<close>

theorem C8_setSolverSettings_bottom_solver:
  "bottom_solver (setSolverSettings st solver) =
     (if bottom_solver_type st = ''smoother'' then smoother
      else if bottom_solver_type st = ''hypre'' then hypre
      else bottom_solver solver)
   \<and> max_iter (setSolverSettings st solver) = mg_max_iter st
   \<and> max_fmg_iter (setSolverSettings st solver) = mg_max_fmg_iter st
   \<and> cg_maxiter (setSolverSettings st solver) = mg_cg_maxiter st
   \<and> mlmg_verbose (setSolverSettings st solver) = mg_verbose st
   \<and> cg_verbose (setSolverSettings st solver) = mg_cg_verbose st
   \<and> final_fill_bc (setSolverSettings st solver) = True"
  by (simp add: setSolverSettings_def)

text \<open>
  C9. The coefficient refresh (lines 187 to 201) is idempotent: run a second time
  with the same density, viscosity and \<open>dt\<close>, it leaves the operator and the face
  arrays as the first run left them, and the whole object too, but for the log of
  calls, which has grown by the calls of the second run.
\<close>

theorem C9_refresh_coeffs_idempotent:
  "matrix (refresh_coeffs ro_in eta_in dt (refresh_coeffs ro_in eta_in dt st))
     = matrix (refresh_coeffs ro_in eta_in dt st)
   \<and> b (refresh_coeffs ro_in eta_in dt (refresh_coeffs ro_in eta_in dt st))
     = b (refresh_coeffs ro_in eta_in dt st)
   \<and> (refresh_coeffs ro_in eta_in dt (refresh_coeffs ro_in eta_in dt st))
        \<lparr>calls := calls (refresh_coeffs ro_in eta_in dt st)\<rparr>
     = refresh_coeffs ro_in eta_in dt st"
proof -
  let ?s1 = "refresh_coeffs ro_in eta_in dt st"
  have f: "amrcore ?s1 = amrcore st" "nghost ?s1 = nghost st"
    by (simp_all add: refresh_coeffs_closed del: upt_Suc)
  have bb: "b (refresh_coeffs ro_in eta_in dt ?s1) = b ?s1"
    unfolding refresh_coeffs_closed[of ro_in eta_in dt ?s1] f
    by (rule ext) (simp add: refresh_coeffs_closed[of ro_in eta_in dt st] b_refreshed_idem del: upt_Suc)
  have mm: "matrix (refresh_coeffs ro_in eta_in dt ?s1) = matrix ?s1"
    unfolding refresh_coeffs_closed[of ro_in eta_in dt ?s1] f
    by (simp add: refresh_coeffs_closed[of ro_in eta_in dt st] b_refreshed_idem del: upt_Suc cong: if_cong)
  have "(refresh_coeffs ro_in eta_in dt ?s1)\<lparr>calls := calls ?s1\<rparr>
        = ?s1\<lparr>b := b (refresh_coeffs ro_in eta_in dt ?s1),
              matrix := matrix (refresh_coeffs ro_in eta_in dt ?s1)\<rparr>"
    by (simp add: refresh_coeffs_closed[of ro_in eta_in dt ?s1] del: upt_Suc)
  then show ?thesis using bb mm by simp
qed

text \<open>
  C10. When \<^verbatim>\<open>solve\<close> returns, with \<open>phi_sol\<close> what the solver returned: on every
  level \<open>lev\<close> up to the finest, the solution buffer is the solver's result after a
  halo exchange, and the caller's velocity agrees with it in its three components on
  every cell of every grid's box grown by one cell, so on the one-cell halo too. No
  operator or solver call follows the solve.
\<close>

theorem C10_solution_copied_back_with_halo:
  assumes "solve mlmg_new ext_solve vel_in ro_in eta_in dt st = Returned (st', vel')"
    and "ext_solve (matrix (solve_setup vel_in ro_in eta_in dt st))
             ((setSolverSettings st mlmg_new)\<lparr>final_fill_bc := True\<rparr>)
             (phi (solve_setup vel_in ro_in eta_in dt st))
             (rhs (solve_setup vel_in ro_in eta_in dt st)) (mg_rtol st) (mg_atol st) = Some phi_sol"
    and "lev \<le> finestLevel (amrcore st)"
  shows "phi st' lev
           = FillBoundary (haloCC (amrcore st) lev) (boxArray (amrcore st) lev) phi_nGrow (phi_sol lev)
       \<and> (\<forall>g c n. g < length (boxArray (amrcore st) lev)
            \<and> inbox (grow (boxArray (amrcore st) lev ! g) 1) c \<and> n < 3 \<longrightarrow>
          vel' lev g c n = phi st' lev g c n)
       \<and> calls st' = calls st @ setup_calls (finestLevel (amrcore st)) dt @ [MLMG_solve]"
proof -
  have l: "lev < Suc (finestLevel (amrcore st))" using assms(3) by simp
  have r: "Returned (st', vel') = Returned
       ((solve_setup vel_in ro_in eta_in dt st)
          \<lparr>phi := (\<lambda>l. if l < Suc (finestLevel (amrcore st))
                    then FillBoundary (haloCC (amrcore st) l) (boxArray (amrcore st) l) phi_nGrow
                           (phi_sol l)
                    else phi_sol l),
           out := (if verbose st > 0
                   then out st @ [''Diffusing velocity components all together...'', '' done!'']
                   else out st),
           calls := calls st @ setup_calls (finestLevel (amrcore st)) dt @ [MLMG_solve]\<rparr>,
        (\<lambda>l. if l < Suc (finestLevel (amrcore st))
             then MultiFab_Copy (boxArray (amrcore st) l) (vel_in l)
                    (FillBoundary (haloCC (amrcore st) l) (boxArray (amrcore st) l) phi_nGrow
                       (phi_sol l)) 0 0 3 1
             else vel_in l))"
    using assms(1) solve_returned[where ext_solve=ext_solve and vel_in=vel_in and ro_in=ro_in
        and eta_in=eta_in and dt=dt and st=st and mlmg_new=mlmg_new and phi_sol=phi_sol, OF assms(2)] by simp
  have p: "phi st' lev
           = FillBoundary (haloCC (amrcore st) lev) (boxArray (amrcore st) lev) phi_nGrow (phi_sol lev)"
    and c: "calls st' = calls st @ setup_calls (finestLevel (amrcore st)) dt @ [MLMG_solve]"
    and v: "vel' lev = MultiFab_Copy (boxArray (amrcore st) lev) (vel_in lev)
                    (FillBoundary (haloCC (amrcore st) lev) (boxArray (amrcore st) lev) phi_nGrow
                       (phi_sol lev)) 0 0 3 1"
    using r l by simp_all
  show ?thesis
    unfolding v p c by (simp add: MultiFab_Copy_def)
qed

text \<open>
  On the small configuration: the ghost cell \<open>(2,0,0)\<close> of grid 0 lies in grid 1; after
  the call the solution buffer and the caller's velocity both hold there the
  solver's value 11 of grid 1, next to the value 10 of grid 0 in the valid cell
  \<open>(1,0,0)\<close>.
\<close>

theorem C10_solution_copied_back_with_halo_witness:
  "phi (fst (carried (solve ex_mlmg ex_solve ex_vel ex_ro ex_eta (1 / 2) (ex_diffeq 0)))) 0 0 (2, 0, 0) 0 = 11
   \<and> snd (carried (solve ex_mlmg ex_solve ex_vel ex_ro ex_eta (1 / 2) (ex_diffeq 0))) 0 0 (2, 0, 0) 0 = 11
   \<and> snd (carried (solve ex_mlmg ex_solve ex_vel ex_ro ex_eta (1 / 2) (ex_diffeq 0))) 0 0 (1, 0, 0) 0 = 10"
proof -
  have h2: "ex_solve (matrix (solve_setup ex_vel ex_ro ex_eta (1 / 2) (ex_diffeq 0)))
             ((setSolverSettings (ex_diffeq 0) ex_mlmg)\<lparr>final_fill_bc := True\<rparr>)
             (phi (solve_setup ex_vel ex_ro ex_eta (1 / 2) (ex_diffeq 0)))
             (rhs (solve_setup ex_vel ex_ro ex_eta (1 / 2) (ex_diffeq 0)))
             (mg_rtol (ex_diffeq 0)) (mg_atol (ex_diffeq 0)) = Some ex_phi_sol"
    by (simp add: ex_solve_def)
  have l: "(0::nat) \<le> finestLevel (amrcore (ex_diffeq 0))" by simp
  note t = C10_solution_copied_back_with_halo[OF ex_solve_returns h2 l]
  from t have p: "phi (fst (carried (solve ex_mlmg ex_solve ex_vel ex_ro ex_eta (1 / 2) (ex_diffeq 0)))) 0
           = FillBoundary (haloCC (amrcore (ex_diffeq 0)) 0) (boxArray (amrcore (ex_diffeq 0)) 0)
               phi_nGrow (ex_phi_sol 0)"
    and v: "\<forall>g c n. g < length (boxArray (amrcore (ex_diffeq 0)) 0)
            \<and> inbox (grow (boxArray (amrcore (ex_diffeq 0)) 0 ! g) 1) c \<and> n < 3 \<longrightarrow>
          snd (carried (solve ex_mlmg ex_solve ex_vel ex_ro ex_eta (1 / 2) (ex_diffeq 0))) 0 g c n
            = phi (fst (carried (solve ex_mlmg ex_solve ex_vel ex_ro ex_eta (1 / 2) (ex_diffeq 0)))) 0 g c n"
    by blast+
  have g: "inbox (grow ex_boxA 1) (2, 0, 0)" "inbox (grow ex_boxA 1) (1, 0, 0)"
    "inbox (grow ex_boxA (Suc 0)) (2, 0, 0)" "inbox (grow ex_boxA (Suc 0)) (1, 0, 0)"
    by (simp_all add: grow_def ex_boxA_def inbox_def)
  have pv: "phi (fst (carried (solve ex_mlmg ex_solve ex_vel ex_ro ex_eta (1 / 2) (ex_diffeq 0)))) 0 0 (2, 0, 0) 0 = 11"
    "phi (fst (carried (solve ex_mlmg ex_solve ex_vel ex_ro ex_eta (1 / 2) (ex_diffeq 0)))) 0 0 (1, 0, 0) 0 = 10"
    unfolding p
    by (simp_all add: FillBoundary_def ex_diffeq_fields ex_amrcore_fields ex_boxes g phi_nGrow_def
        ex_phi_sol_def)
  from v[rule_format, of 0 "(2, 0, 0)" 0] v[rule_format, of 0 "(1, 0, 0)" 0] pv g
  show ?thesis
    by (simp add: ex_diffeq_fields ex_amrcore_fields)
qed

end
